theory Spec2Isabelle
  imports Main
begin

section \<open>Strings and cells\<close>

text \<open>
  Python strings are modelled as \<^typ>\<open>string\<close>, one \<^typ>\<open>char\<close> per code point, for
  code points below 256 (Latin-1). \<open>str.strip()\<close> with no argument removes the
  characters for which \<open>str.isspace()\<close> holds, and \<open>str.lower()\<close> maps the capital
  letters of that range to their small forms.
\<close>

definition py_isspace :: "char \<Rightarrow> bool" where
  "py_isspace c =
     ((of_char c :: nat) \<in> {9, 10, 11, 12, 13, 28, 29, 30, 31, 32, 133, 160})"

definition py_strip :: "string \<Rightarrow> string" where
  "py_strip s = rev (dropWhile py_isspace (rev (dropWhile py_isspace s)))"

definition lower_char :: "char \<Rightarrow> char" where
  "lower_char c =
     (let n = (of_char c :: nat)
      in if (65 \<le> n \<and> n \<le> 90) \<or> (192 \<le> n \<and> n \<le> 222 \<and> n \<noteq> 215)
         then char_of (n + 32) else c)"

definition py_lower :: "string \<Rightarrow> string" where
  "py_lower s = map lower_char s"

text \<open>
  \<open>s.replace(old, new)\<close>: every non-overlapping occurrence of \<open>old\<close>, from the left.
  With an empty \<open>old\<close> Python puts \<open>new\<close> before every character and at the end.
\<close>

function py_replace :: "string \<Rightarrow> string \<Rightarrow> string \<Rightarrow> string" where
  "py_replace old new s =
     (if old = [] then new @ concat (map (\<lambda>c. c # new) s)
      else if s = [] then []
      else if take (length old) s = old
           then new @ py_replace old new (drop (length old) s)
           else hd s # py_replace old new (tl s))"
  by pat_completeness auto
termination
  by (relation "measure (\<lambda>(old, new, s). length s)") auto

declare py_replace.simps [simp del]

text \<open>
  A cell of the spreadsheet as pandas reads it: text, a whole number, or the missing
  value. \<open>astype(str)\<close> applies \<open>str\<close> to every cell. (Cells holding other floats or
  dates are outside this model.)
\<close>

datatype cell = CStr string | CInt int | CNaN

fun show_nat :: "nat \<Rightarrow> string" where
  "show_nat n =
     (if n < 10 then [char_of (48 + n)]
      else show_nat (n div 10) @ [char_of (48 + n mod 10)])"

declare show_nat.simps [simp del]

fun py_str :: "cell \<Rightarrow> string" where
  "py_str (CStr s) = s"
| "py_str (CInt i) = (if i < 0 then CHR ''-'' # show_nat (nat (- i)) else show_nat (nat i))"
| "py_str CNaN = ''nan''"

section \<open>The roster and \<open>find_student\<close>\<close>

text \<open>
  A \<open>DataFrame\<close>: the column labels in order, and the rows in order, each row holding
  one cell per column. \<open>pandas.read_excel\<close> makes the labels distinct.
\<close>

record dataframe =
  df_columns :: "string list"
  df_rows :: "cell list list"

text \<open>\<open>df.empty\<close>: some axis has length 0.\<close>

definition df_empty :: "dataframe \<Rightarrow> bool" where
  "df_empty df = (df_columns df = [] \<or> df_rows df = [])"

text \<open>A row as a dictionary (\<open>Series.to_dict()\<close>), keys in column order.\<close>

type_synonym student_rec = "(string \<times> cell) list"

definition to_dict :: "dataframe \<Rightarrow> cell list \<Rightarrow> student_rec" where
  "to_dict df r = zip (df_columns df) r"

text \<open>\<open>d.get(key, default)\<close>\<close>

definition dict_get :: "student_rec \<Rightarrow> string \<Rightarrow> cell \<Rightarrow> cell" where
  "dict_get d k dflt = (case map_of d k of None \<Rightarrow> dflt | Some v \<Rightarrow> v)"

text \<open>
  The body of the loop of \<open>find_student\<close> for the column at position \<open>i\<close>:
  \<open>series = df[col].astype(str).str.strip().str.lower()\<close>, then
  \<open>match = df[series == reg_no]\<close>, the rows selected by the boolean mask, in row order.
\<close>

definition series_of :: "dataframe \<Rightarrow> nat \<Rightarrow> string list" where
  "series_of df i = map (\<lambda>r. py_lower (py_strip (py_str (r ! i)))) (df_rows df)"

definition match_rows :: "dataframe \<Rightarrow> nat \<Rightarrow> string \<Rightarrow> cell list list" where
  "match_rows df i q =
     map snd (filter (\<lambda>(s, r). s = q) (zip (series_of df i) (df_rows df)))"

fun find_student_loop :: "dataframe \<Rightarrow> string \<Rightarrow> nat list \<Rightarrow> student_rec option" where
  "find_student_loop df q [] = None"
| "find_student_loop df q (i # cols) =
     (case match_rows df i q of
        [] \<Rightarrow> find_student_loop df q cols
      | r # _ \<Rightarrow> Some (to_dict df r))"

definition find_student :: "dataframe \<Rightarrow> string \<Rightarrow> student_rec option" where
  "find_student df reg_no =
     find_student_loop df (py_lower (py_strip reg_no)) [0 ..< length (df_columns df)]"

section \<open>Configuration, environment, session state\<close>

text \<open>
  The values read from \<open>st.secrets\<close> at the top of the module. \<open>VIDEO_DURATION\<close>
  is in seconds.
\<close>

record config =
  AES_FILE :: string
  ADMIN_PASSWORD :: string
  VIDEO_URL :: string
  VIDEO_DURATION :: int
  SUBJECT :: string

definition CERT_DIR :: string where
  "CERT_DIR = ''certificates''"

datatype exn =
    ZeroDivisionError
  | StreamlitAPIException
  | AttributeError
  | FileNotFoundError
  | ExternalError string

text \<open>
  What the world answers during one run of the script: whether the encrypted file
  exists and what decrypting and parsing it gives, the values of \<open>datetime.now()\<close>
  at the login handler and at the timer (in microseconds, the resolution of
  \<open>datetime\<close>), the formatted date printed on a certificate, and whether the PDF
  library raises while the certificate is drawn and written.
\<close>

record env =
  file_exists :: bool
  decrypt_read :: "exn + dataframe"
  now_login :: int
  now_timer :: int
  today :: string
  fpdf_raises :: "exn option"

datatype button = Login | Watched | Reload

text \<open>
  The widget values of one run. \<open>st.button\<close> returns \<open>True\<close> only in the run that
  the click on that button started, so at most one button is clicked in a run.
\<close>

record input =
  reg_no :: string
  clicked :: "button option"
  admin_login :: bool
  pw :: string

text \<open>
  \<open>st.session_state\<close>: every key may be absent (\<open>None\<close>). The key \<open>df\<close> holds the
  result of \<open>load_student_file\<close>, which is itself \<open>None\<close> after a failed load.
\<close>

record session =
  df :: "dataframe option option"
  student :: "student_rec option"
  login_time :: "int option"
  timer_started :: "bool option"
  video_done :: "bool option"
  certificate_ready :: "bool option"
  certificate_path :: "string option"

definition fresh_session :: session where
  "fresh_session = \<lparr>df = None, student = None, login_time = None, timer_started = None,
     video_done = None, certificate_ready = None, certificate_path = None\<rparr>"

text \<open>What \<open>create_certificate\<close> prints on the page of the PDF.\<close>

record pdf_doc =
  pdf_name :: cell
  pdf_reg_no :: cell
  pdf_subject :: string
  pdf_date :: string

datatype message =
    MissingSecrets
  | EncryptedFileNotFound string
  | DecryptedFileEmpty
  | StudentListLoaded
  | FailedToDecrypt exn
  | RegNoNotFound
  | Welcome cell
  | TimeRemaining int
  | VideoTimeCompleted
  | CertificateGenerated
  | NeedFinishWatching int
  | AdminAccessGranted

datatype element =
    Title
  | Error message
  | Success message
  | Info message
  | Warning message
  | Progress int
  | Subheader string
  | Video string
  | DownloadLink string pdf_doc
  | Rule
  | RegNoInput
  | AdminCheckbox
  | PasswordInput
  | ButtonW button

datatype call = LoadStudentFile | CreateCertificate cell cell string

text \<open>
  The state one run of the script works on: the session, the certificate files on
  disk, the page rendered so far, and the calls made to the two collaborators.
\<close>

record run =
  sess :: session
  files :: "string \<rightharpoonup> pdf_doc"
  page :: "element list"
  calls :: "call list"

datatype status = Normal | Stopped | Uncaught exn

type_synonym outcome = "status \<times> run"

definition emit :: "element \<Rightarrow> run \<Rightarrow> run" where
  "emit e r = r\<lparr>page := page r @ [e]\<rparr>"

definition andthen :: "outcome \<Rightarrow> (run \<Rightarrow> outcome) \<Rightarrow> outcome" where
  "andthen x f = (case x of (Normal, r) \<Rightarrow> f r | _ \<Rightarrow> x)"

section \<open>The functions of the module\<close>

definition load_student_file :: "config \<Rightarrow> env \<Rightarrow> run \<Rightarrow> dataframe option \<times> run" where
  "load_student_file cfg e r =
     (let r1 = r\<lparr>calls := calls r @ [LoadStudentFile]\<rparr>
      in if \<not> file_exists e
         then (None, emit (Error (EncryptedFileNotFound (AES_FILE cfg))) r1)
         else (case decrypt_read e of
                 Inl x \<Rightarrow> (None, emit (Error (FailedToDecrypt x)) r1)
               | Inr frame \<Rightarrow>
                   if df_empty frame then (None, emit (Error DecryptedFileEmpty) r1)
                   else (Some frame, emit (Success StudentListLoaded) r1)))"

text \<open>\<open>os.path.join(CERT_DIR, filename)\<close> and \<open>os.path.basename(path)\<close> (POSIX).\<close>

definition path_join :: "string \<Rightarrow> string \<Rightarrow> string" where
  "path_join a b =
     (if b \<noteq> [] \<and> hd b = CHR ''/'' then b
      else if a = [] \<or> last a = CHR ''/'' then a @ b
      else a @ ''/'' @ b)"

definition basename :: "string \<Rightarrow> string" where
  "basename p = rev (takeWhile (\<lambda>c. c \<noteq> CHR ''/'') (rev p))"

definition cert_path :: "cell \<Rightarrow> string \<Rightarrow> string" where
  "cert_path reg subject =
     path_join CERT_DIR (py_str reg @ ''_'' @ py_replace '' '' ''_'' subject @ ''.pdf'')"

definition create_certificate ::
    "env \<Rightarrow> cell \<Rightarrow> cell \<Rightarrow> string \<Rightarrow> run \<Rightarrow> (exn \<times> run) + (string \<times> run)" where
  "create_certificate e name reg subject r =
     (let r1 = r\<lparr>calls := calls r @ [CreateCertificate name reg subject]\<rparr>
      in case fpdf_raises e of
           Some x \<Rightarrow> Inl (x, r1)
         | None \<Rightarrow>
             (let path = cert_path reg subject;
                  doc = \<lparr>pdf_name = name, pdf_reg_no = reg, pdf_subject = subject,
                         pdf_date = today e\<rparr>
              in Inr (path, r1\<lparr>files := (files r1)(path \<mapsto> doc)\<rparr>)))"

definition get_pdf_download_link :: "string \<Rightarrow> run \<Rightarrow> exn + element" where
  "get_pdf_download_link path r =
     (case files r path of
        None \<Rightarrow> Inl FileNotFoundError
      | Some doc \<Rightarrow> Inr (DownloadLink (basename path) doc))"

section \<open>The module body: one run of the script\<close>

text \<open>
  \<open>int(x)\<close> on a float truncates towards zero. Durations are kept in microseconds, so
  \<open>int(remaining)\<close> is \<open>py_int_seconds\<close> of the remaining microseconds, and
  \<open>int((elapsed / VIDEO_DURATION) * 100)\<close> is the truncated quotient
  \<open>trunc_quot (elapsed * 100) (VIDEO_DURATION * 1000000)\<close>; the rounding of the float
  operations themselves is not modelled.
\<close>

definition trunc_quot :: "int \<Rightarrow> int \<Rightarrow> int" where
  "trunc_quot a b = sgn a * sgn b * (\<bar>a\<bar> div \<bar>b\<bar>)"

definition py_int_seconds :: "int \<Rightarrow> int" where
  "py_int_seconds us = trunc_quot us 1000000"

definition remaining_us :: "config \<Rightarrow> env \<Rightarrow> int \<Rightarrow> int" where
  "remaining_us cfg e t0 = VIDEO_DURATION cfg * 1000000 - (now_timer e - t0)"

text \<open>The login handler.\<close>

definition login_section :: "env \<Rightarrow> input \<Rightarrow> dataframe \<Rightarrow> run \<Rightarrow> outcome" where
  "login_section e inp frame r =
     (let r1 = emit (ButtonW Login) (emit RegNoInput r)
      in if clicked inp = Some Login \<and> reg_no inp \<noteq> []
         then (case find_student frame (reg_no inp) of
                 None \<Rightarrow> (Normal, emit (Error RegNoNotFound) r1)
               | Some stu \<Rightarrow>
                   (Normal,
                    emit (Success (Welcome (dict_get stu ''Name'' (CStr ''Student''))))
                      (r1\<lparr>sess := (sess r1)\<lparr>student := Some stu,
                                             login_time := Some (now_login e),
                                             timer_started := Some True,
                                             video_done := Some False,
                                             certificate_ready := Some False\<rparr>\<rparr>)))
         else (Normal, r1))"

text \<open>
  The timer. \<open>st.progress\<close> accepts an \<open>int\<close> from 0 to 100 and raises otherwise; the
  division raises when \<open>VIDEO_DURATION\<close> is 0.
\<close>

definition timer_gate :: "config \<Rightarrow> env \<Rightarrow> int \<Rightarrow> run \<Rightarrow> outcome" where
  "timer_gate cfg e t0 r =
     (let r1 = (if video_done (sess r) = None
                then r\<lparr>sess := (sess r)\<lparr>video_done := Some False\<rparr>\<rparr> else r);
          elapsed = now_timer e - t0;
          remaining = remaining_us cfg e t0
      in if remaining > 0
         then (let r2 = emit (Info (TimeRemaining (py_int_seconds remaining))) r1
               in if VIDEO_DURATION cfg = 0 then (Uncaught ZeroDivisionError, r2)
                  else (let p = trunc_quot (elapsed * 100) (VIDEO_DURATION cfg * 1000000)
                        in if 0 \<le> p \<and> p \<le> 100 then (Normal, emit (Progress p) r2)
                           else (Uncaught StreamlitAPIException, r2)))
         else (Normal, emit (Success VideoTimeCompleted)
                         (r1\<lparr>sess := (sess r1)\<lparr>video_done := Some True\<rparr>\<rparr>)))"

text \<open>The handler of the button "I have watched the video".\<close>

definition watched_button ::
    "config \<Rightarrow> env \<Rightarrow> input \<Rightarrow> student_rec \<Rightarrow> cell \<Rightarrow> int \<Rightarrow> run \<Rightarrow> outcome" where
  "watched_button cfg e inp stu reg remaining r =
     (let r1 = (if certificate_ready (sess r) = None
                then r\<lparr>sess := (sess r)\<lparr>certificate_ready := Some False\<rparr>\<rparr> else r);
          r2 = emit (ButtonW Watched) r1
      in if clicked inp = Some Watched
         then (if video_done (sess r2) = Some True
               then (case create_certificate e (dict_get stu ''Name'' (CStr ''Student''))
                            reg (SUBJECT cfg) r2 of
                       Inl (x, r3) \<Rightarrow> (Uncaught x, r3)
                     | Inr (path, r3) \<Rightarrow>
                         (Normal,
                          emit (Success CertificateGenerated)
                            (r3\<lparr>sess := (sess r3)\<lparr>certificate_path := Some path,
                                                   certificate_ready := Some True\<rparr>\<rparr>)))
               else (Normal,
                     emit (Warning (NeedFinishWatching (py_int_seconds remaining))) r2))
         else (Normal, r2))"

text \<open>The download link below the button.\<close>

definition download_section :: "run \<Rightarrow> outcome" where
  "download_section r =
     (if certificate_ready (sess r) = Some True
      then (case certificate_path (sess r) of
              None \<Rightarrow> (Uncaught AttributeError, r)
            | Some path \<Rightarrow>
                (case get_pdf_download_link path r of
                   Inl x \<Rightarrow> (Uncaught x, r)
                 | Inr link \<Rightarrow> (Normal, emit link r)))
      else (Normal, r))"

text \<open>The block guarded by \<open>st.session_state.get("timer_started", False)\<close>.\<close>

definition video_section :: "config \<Rightarrow> env \<Rightarrow> input \<Rightarrow> run \<Rightarrow> outcome" where
  "video_section cfg e inp r =
     (if timer_started (sess r) = Some True
      then (case student (sess r) of
              None \<Rightarrow> (Uncaught AttributeError, r)
            | Some stu \<Rightarrow>
                (let reg = dict_get stu ''Reg_No'' (CStr (reg_no inp));
                     r1 = emit (Subheader (SUBJECT cfg)) r
                 in case login_time (sess r1) of
                      None \<Rightarrow>
                        (Uncaught AttributeError,
                         if video_done (sess r1) = None
                         then r1\<lparr>sess := (sess r1)\<lparr>video_done := Some False\<rparr>\<rparr> else r1)
                    | Some t0 \<Rightarrow>
                        andthen
                          (andthen (timer_gate cfg e t0 r1)
                             (\<lambda>r2. watched_button cfg e inp stu reg (remaining_us cfg e t0)
                                     (emit (Video (py_replace ''watch?v='' ''embed/''
                                                     (VIDEO_URL cfg))) r2)))
                          download_section))
      else (Normal, r))"

text \<open>The admin block.\<close>

definition admin_section :: "config \<Rightarrow> env \<Rightarrow> input \<Rightarrow> run \<Rightarrow> outcome" where
  "admin_section cfg e inp r =
     (let r1 = emit AdminCheckbox (emit Rule r)
      in if admin_login inp
         then (let r2 = emit PasswordInput r1
               in if pw inp = ADMIN_PASSWORD cfg
                  then (let r3 = emit (ButtonW Reload) (emit (Success AdminAccessGranted) r2)
                        in if clicked inp = Some Reload
                           then (case load_student_file cfg e r3 of
                                   (res, r4) \<Rightarrow>
                                     (Normal, r4\<lparr>sess := (sess r4)\<lparr>df := Some res\<rparr>\<rparr>))
                           else (Normal, r3))
                  else (Normal, r2))
         else (Normal, r1))"

text \<open>
  The whole module body. \<open>None\<close> for the configuration is the case of the missing
  secrets. The roster is loaded when the key \<open>df\<close> is absent; the local \<open>df\<close> that
  the login handler searches is read once, before the handlers run.
\<close>

definition script :: "config option \<Rightarrow> env \<Rightarrow> input \<Rightarrow> run \<Rightarrow> outcome" where
  "script cfgo e inp r =
     (case cfgo of
        None \<Rightarrow> (Stopped, emit (Error MissingSecrets) r)
      | Some cfg \<Rightarrow>
          (let r1 = emit Title r;
               r2 = (case df (sess r1) of
                       None \<Rightarrow>
                         (case load_student_file cfg e r1 of
                            (res, r') \<Rightarrow> r'\<lparr>sess := (sess r')\<lparr>df := Some res\<rparr>\<rparr>)
                     | Some _ \<Rightarrow> r1)
           in case df (sess r2) of
                Some (Some frame) \<Rightarrow>
                  andthen (andthen (login_section e inp frame r2) (video_section cfg e inp))
                    (admin_section cfg e inp)
              | _ \<Rightarrow> (Stopped, r2)))"

text \<open>
  A user interaction: the run starts on the session and the files left by the run
  before, with an empty page.
\<close>

definition start :: "session \<Rightarrow> (string \<rightharpoonup> pdf_doc) \<Rightarrow> run" where
  "start s fs = \<lparr>sess = s, files = fs, page = [], calls = []\<rparr>"

definition interact ::
    "config \<Rightarrow> env \<Rightarrow> input \<Rightarrow> session \<Rightarrow> (string \<rightharpoonup> pdf_doc) \<Rightarrow> outcome" where
  "interact cfg e inp s fs = script (Some cfg) e inp (start s fs)"

section \<open>Reading the specification on the session\<close>

text \<open>
  The phases of the specification that the session stores. \<open>Authenticated\<close> is never
  stored apart from \<open>Watching\<close>, and \<open>Eligible\<close> is not stored either: it is
  \<open>Watching\<close> together with \<open>eligible\<close>, a comparison with the clock.
\<close>

datatype phase = Anonymous | Watching | Certified

definition phase_of :: "session \<Rightarrow> phase" where
  "phase_of s =
     (if timer_started s \<noteq> Some True then Anonymous
      else if certificate_ready s = Some True then Certified
      else Watching)"

definition eligible :: "config \<Rightarrow> int \<Rightarrow> session \<Rightarrow> bool" where
  "eligible cfg now s =
     (case login_time s of
        None \<Rightarrow> False
      | Some t0 \<Rightarrow> VIDEO_DURATION cfg * 1000000 \<le> now - t0)"

text \<open>
  What holds of the session after any number of runs, at a time \<open>t\<close> not before the
  last of them: once the timer is started the student, the login time and the two
  flags are present; the login time is not in the future; \<open>video_done\<close> is set only
  when the duration has elapsed; \<open>certificate_ready\<close> is set only after \<open>video_done\<close> and
  together with a path.
\<close>

definition coherent :: "config \<Rightarrow> int \<Rightarrow> session \<Rightarrow> bool" where
  "coherent cfg t s =
     ((timer_started s = Some True \<longrightarrow>
         student s \<noteq> None \<and> login_time s \<noteq> None \<and> video_done s \<noteq> None \<and>
         certificate_ready s \<noteq> None) \<and>
      (\<forall>t0. login_time s = Some t0 \<longrightarrow> t0 \<le> t) \<and>
      (video_done s = Some True \<longrightarrow> timer_started s = Some True \<and> eligible cfg t s) \<and>
      (certificate_ready s = Some True \<longrightarrow>
         video_done s = Some True \<and> certificate_path s \<noteq> None))"

text \<open>
  The cell in row \<open>k\<close>, column \<open>i\<close> matches the submitted registration number: both
  sides trimmed and lowercased.
\<close>

definition cell_matches :: "dataframe \<Rightarrow> string \<Rightarrow> nat \<Rightarrow> nat \<Rightarrow> bool" where
  "cell_matches frame reg k i =
     (py_lower (py_strip (py_str (df_rows frame ! k ! i))) = py_lower (py_strip reg))"

text \<open>
  The lookup in the order the specification words it, "first matching row, first
  matching column, wins": the rows are tried in order, and the first row with a
  matching cell in any column is returned.
\<close>

definition find_student_row_major :: "dataframe \<Rightarrow> string \<Rightarrow> student_rec option" where
  "find_student_row_major frame reg =
     (case filter (\<lambda>r. list_ex (\<lambda>i. py_lower (py_strip (py_str (r ! i))) =
                                      py_lower (py_strip reg))
                            [0 ..< length (df_columns frame)])
                  (df_rows frame) of
        [] \<Rightarrow> None
      | r # _ \<Rightarrow> Some (to_dict frame r))"

text \<open>
  A run that leaves the roster alone: the key \<open>df\<close> keeps its value, the roster
  provider is not called, and neither the reload button nor the admin greeting is
  added to the page.
\<close>

definition keeps_roster :: "run \<Rightarrow> run \<Rightarrow> bool" where
  "keeps_roster r r' =
     (df (sess r') = df (sess r) \<and>
      (LoadStudentFile \<in> set (calls r') \<longrightarrow> LoadStudentFile \<in> set (calls r)) \<and>
      (ButtonW Reload \<in> set (page r') \<longrightarrow> ButtonW Reload \<in> set (page r)) \<and>
      (Success AdminAccessGranted \<in> set (page r') \<longrightarrow>
         Success AdminAccessGranted \<in> set (page r)))"

text \<open>
  The stored path belongs to the stored record: on a session with a certificate whose
  record has a column \<open>Reg_No\<close>, \<open>certificate_path\<close> is the path made of that
  registration number and the subject.
\<close>

definition handle_matches :: "config \<Rightarrow> session \<Rightarrow> bool" where
  "handle_matches cfg s =
     (certificate_ready s = Some True \<longrightarrow>
        (\<exists>stu. student s = Some stu \<and>
           (\<forall>reg. map_of stu ''Reg_No'' = Some reg \<longrightarrow>
                    certificate_path s = Some (cert_path reg (SUBJECT cfg)))))"

text \<open>
  Several clients. \<open>st.session_state\<close> is one dictionary per client session, and the
  roster is stored in it under \<open>df\<close>; the directory of certificates is shared. A run
  started by the client \<open>sid\<close> reads and writes that client's session only.
\<close>

record server =
  sessions :: "nat \<Rightarrow> session"
  disk :: "string \<rightharpoonup> pdf_doc"

definition serve :: "config \<Rightarrow> env \<Rightarrow> input \<Rightarrow> nat \<Rightarrow> server \<Rightarrow> server" where
  "serve cfg e inp sid srv =
     (case interact cfg e inp (sessions srv sid) (disk srv) of
        (st, r) \<Rightarrow> \<lparr>sessions = (sessions srv)(sid := sess r), disk = files r\<rparr>)"

section \<open>Example data\<close>

text \<open>The scenario of the specification: 600 seconds, Jane Doe with number A100.\<close>

definition ex_config :: config where
  "ex_config = \<lparr>AES_FILE = ''students.xlsx.aes'', ADMIN_PASSWORD = ''s3cret'',
     VIDEO_URL = ''https://www.youtube.com/watch?v=eLxQMPkDmAo'',
     VIDEO_DURATION = 600, SUBJECT = ''CS22301 Microlearning''\<rparr>"

definition ex_roster :: dataframe where
  "ex_roster = \<lparr>df_columns = [''Name'', ''Reg_No''],
                 df_rows = [[CStr ''Jane Doe'', CStr ''A100'']]\<rparr>"

definition ex_student :: student_rec where
  "ex_student = [(''Name'', CStr ''Jane Doe''), (''Reg_No'', CStr ''A100'')]"


text \<open>
  A roster with a roll number before the registration number: 12 is the registration
  number of the first row and the roll number of the second.
\<close>

definition ex_roster_roll :: dataframe where
  "ex_roster_roll = \<lparr>df_columns = [''Roll'', ''Name'', ''Reg_No''],
                      df_rows = [[CStr ''7'', CStr ''Jane Doe'', CStr ''12''],
                                 [CStr ''12'', CStr ''John Roe'', CStr ''30'']]\<rparr>"

text \<open>The roster after the file was replaced, and an empty sheet.\<close>

definition ex_roster_new :: dataframe where
  "ex_roster_new = \<lparr>df_columns = [''Name'', ''Reg_No''],
                     df_rows = [[CStr ''John Roe'', CStr ''B200'']]\<rparr>"


text \<open>The admin box ticked, a password typed, a button clicked.\<close>

definition ex_admin :: "string \<Rightarrow> button option \<Rightarrow> input" where
  "ex_admin p b = \<lparr>reg_no = [], clicked = b, admin_login = True, pw = p\<rparr>"

text \<open>The provider's answer during a reload.\<close>

definition ex_reload_env :: "bool \<Rightarrow> exn + dataframe \<Rightarrow> env" where
  "ex_reload_env ex a = \<lparr>file_exists = ex, decrypt_read = a, now_login = 0,
                          now_timer = 0, today = ''04-11-2026'', fpdf_raises = None\<rparr>"

text \<open>The clock reads \<open>t\<close> microseconds everywhere in the run; the library answers \<open>x\<close>.\<close>

definition ex_env :: "int \<Rightarrow> exn option \<Rightarrow> env" where
  "ex_env t x = \<lparr>file_exists = True, decrypt_read = Inr ex_roster, now_login = t,
                  now_timer = t, today = ''04-11-2026'', fpdf_raises = x\<rparr>"

definition ex_input :: "string \<Rightarrow> button option \<Rightarrow> input" where
  "ex_input q b = \<lparr>reg_no = q, clicked = b, admin_login = False, pw = []\<rparr>"

text \<open>
  The session once the roster is loaded, after \<open>login("A100")\<close> at time 0, and after
  the certificate.
\<close>

definition ex_anonymous :: session where
  "ex_anonymous = \<lparr>df = Some (Some ex_roster), student = None, login_time = None,
     timer_started = None, video_done = None, certificate_ready = None,
     certificate_path = None\<rparr>"

definition ex_watching :: session where
  "ex_watching = \<lparr>df = Some (Some ex_roster), student = Some ex_student,
     login_time = Some 0, timer_started = Some True, video_done = Some False,
     certificate_ready = Some False, certificate_path = None\<rparr>"

definition ex_certified :: session where
  "ex_certified = \<lparr>df = Some (Some ex_roster), student = Some ex_student,
     login_time = Some 0, timer_started = Some True, video_done = Some True,
     certificate_ready = Some True,
     certificate_path = Some ''certificates/A100_CS22301_Microlearning.pdf''\<rparr>"

definition ex_doc :: pdf_doc where
  "ex_doc = \<lparr>pdf_name = CStr ''Jane Doe'', pdf_reg_no = CStr ''A100'',
              pdf_subject = ''CS22301 Microlearning'', pdf_date = ''04-11-2026''\<rparr>"

definition ex_files :: "string \<rightharpoonup> pdf_doc" where
  "ex_files = [''certificates/A100_CS22301_Microlearning.pdf'' \<mapsto> ex_doc]"

text \<open>
  A roster that names the registration number column \<open>RegNo\<close>, and the Certified
  session of a student of that roster who had \<open>A100\<close> in the input box when confirming.
\<close>

definition ex_student_regno :: student_rec where
  "ex_student_regno = [(''Name'', CStr ''Jane Doe''), (''RegNo'', CStr ''A100'')]"

definition ex_roster_regno :: dataframe where
  "ex_roster_regno = \<lparr>df_columns = [''Name'', ''RegNo''],
                       df_rows = [[CStr ''Jane Doe'', CStr ''A100'']]\<rparr>"

definition ex_certified_regno :: session where
  "ex_certified_regno = \<lparr>df = Some (Some ex_roster_regno), student = Some ex_student_regno,
     login_time = Some 0, timer_started = Some True, video_done = Some True,
     certificate_ready = Some True,
     certificate_path = Some ''certificates/A100_CS22301_Microlearning.pdf''\<rparr>"

text \<open>Two clients, both with the first roster loaded and nobody logged in.\<close>

definition ex_server :: server where
  "ex_server = \<lparr>sessions = (\<lambda>sid. ex_anonymous), disk = Map.empty\<rparr>"

section \<open>Properties of \<open>find_student\<close>\<close>

lemma match_rows_filter:
  "match_rows frame i q =
     filter (\<lambda>r. py_lower (py_strip (py_str (r ! i))) = q) (df_rows frame)"
proof -
  have "map snd (filter (\<lambda>(s, r). s = q) (zip (map f xs) xs)) = filter (\<lambda>r. f r = q) xs"
    for f :: "cell list \<Rightarrow> string" and xs
    by (induction xs) auto
  then show ?thesis
    by (simp add: match_rows_def series_of_def)
qed

lemma filter_Nil_index:
  "(filter P xs = []) = (\<forall>k<length xs. \<not> P (xs ! k))"
  by (simp add: filter_empty_conv all_set_conv_all_nth)

lemma filter_Cons_index:
  "(filter P xs = y # ys) \<Longrightarrow>
     (\<exists>k<length xs. xs ! k = y \<and> P y \<and> (\<forall>k'<k. \<not> P (xs ! k')))"
proof (induction xs)
  case Nil
  then show ?case by simp
next
  case (Cons x xs)
  show ?case
  proof (cases "P x")
    case True
    with Cons.prems have "x = y" by simp
    with True show ?thesis by (intro exI[of _ 0]) simp
  next
    case False
    with Cons.prems have "filter P xs = y # ys" by simp
    from Cons.IH[OF this] obtain k where k: "k < length xs" "xs ! k = y" "P y"
      "\<forall>k'<k. \<not> P (xs ! k')" by blast
    show ?thesis
    proof (intro exI[of _ "Suc k"] conjI allI impI)
      fix k' assume "k' < Suc k"
      then show "\<not> P ((x # xs) ! k')" using False k(4) by (cases k') auto
    qed (use k in auto)
  qed
qed

lemma first_index_hd_filter:
  "k < length xs \<Longrightarrow> P (xs ! k) \<Longrightarrow> (\<forall>k'<k. \<not> P (xs ! k')) \<Longrightarrow>
     \<exists>ys. filter P xs = xs ! k # ys"
proof (induction xs arbitrary: k)
  case Nil
  then show ?case by simp
next
  case (Cons x xs)
  show ?case
  proof (cases k)
    case 0
    with Cons.prems show ?thesis by simp
  next
    case (Suc j)
    with Cons.prems have nx: "\<not> P x" by force
    have "j < length xs" "P (xs ! j)" "\<forall>k'<j. \<not> P (xs ! k')"
      using Cons.prems Suc by auto
    from Cons.IH[OF this] nx Suc show ?thesis by simp
  qed
qed

lemma find_student_loop_filter:
  "find_student_loop frame q cols =
     (case filter (\<lambda>i. match_rows frame i q \<noteq> []) cols of
        [] \<Rightarrow> None
      | i # _ \<Rightarrow> Some (to_dict frame (hd (match_rows frame i q))))"
  by (induction cols) (auto split: list.splits)

lemma match_rows_Nil:
  "(match_rows frame i (py_lower (py_strip reg)) = []) =
     (\<forall>k<length (df_rows frame). \<not> cell_matches frame reg k i)"
  by (simp add: match_rows_filter filter_Nil_index cell_matches_def)

lemma find_student_None:
  "(find_student frame reg = None) =
     (\<forall>i<length (df_columns frame). \<forall>k<length (df_rows frame). \<not> cell_matches frame reg k i)"
proof -
  let ?q = "py_lower (py_strip reg)"
  let ?n = "length (df_columns frame)"
  have "(find_student frame reg = None) =
          (filter (\<lambda>i. match_rows frame i ?q \<noteq> []) [0..<?n] = [])"
    by (simp add: find_student_def find_student_loop_filter split: list.splits)
  also have "\<dots> = (\<forall>i<?n. match_rows frame i ?q = [])"
    by (simp add: filter_Nil_index)
  finally show ?thesis by (simp add: match_rows_Nil)
qed

lemma find_student_Some_imp:
  assumes "find_student frame reg = Some stu"
  shows "\<exists>i k. i < length (df_columns frame) \<and> k < length (df_rows frame) \<and>
           cell_matches frame reg k i \<and>
           (\<forall>j<i. \<forall>k'<length (df_rows frame). \<not> cell_matches frame reg k' j) \<and>
           (\<forall>k'<k. \<not> cell_matches frame reg k' i) \<and>
           stu = to_dict frame (df_rows frame ! k)"
proof -
  let ?q = "py_lower (py_strip reg)"
  let ?n = "length (df_columns frame)"
  let ?P = "\<lambda>i. match_rows frame i ?q \<noteq> []"
  let ?M = "\<lambda>i r. py_lower (py_strip (py_str (r ! i))) = ?q"
  from assms obtain i rest where f: "filter ?P [0..<?n] = i # rest"
    and stu: "stu = to_dict frame (hd (match_rows frame i ?q))"
    by (auto simp: find_student_def find_student_loop_filter split: list.splits)
  from filter_Cons_index[OF f] obtain i' where i': "i' < ?n" "[0..<?n] ! i' = i" "?P i"
    "\<forall>j<i'. \<not> ?P ([0..<?n] ! j)" by auto
  then have i: "i < ?n" and before: "\<forall>j<i. match_rows frame j ?q = []" by auto
  from \<open>?P i\<close> obtain r rs where m: "filter (?M i) (df_rows frame) = r # rs"
    by (auto simp: match_rows_filter neq_Nil_conv)
  from filter_Cons_index[OF m] obtain k where k: "k < length (df_rows frame)"
    "df_rows frame ! k = r" "\<forall>k'<k. \<not> ?M i (df_rows frame ! k')" "?M i r" by auto
  have "hd (match_rows frame i ?q) = df_rows frame ! k"
    using m k(2) by (simp add: match_rows_filter)
  with stu i k before show ?thesis
    by (intro exI[of _ i] exI[of _ k]) (auto simp: cell_matches_def match_rows_Nil)
qed

lemma find_student_Some_if:
  assumes "i < length (df_columns frame)" "k < length (df_rows frame)"
    "cell_matches frame reg k i"
    "\<forall>j<i. \<forall>k'<length (df_rows frame). \<not> cell_matches frame reg k' j"
    "\<forall>k'<k. \<not> cell_matches frame reg k' i"
  shows "find_student frame reg = Some (to_dict frame (df_rows frame ! k))"
proof -
  let ?q = "py_lower (py_strip reg)"
  let ?n = "length (df_columns frame)"
  let ?P = "\<lambda>i. match_rows frame i ?q \<noteq> []"
  let ?M = "\<lambda>i r. py_lower (py_strip (py_str (r ! i))) = ?q"
  have "\<exists>ys. filter (?M i) (df_rows frame) = df_rows frame ! k # ys"
    using assms(2,3,5) by (intro first_index_hd_filter) (auto simp: cell_matches_def)
  then obtain ys where m: "match_rows frame i ?q = df_rows frame ! k # ys"
    by (auto simp: match_rows_filter)
  have "\<exists>zs. filter ?P [0..<?n] = [0..<?n] ! i # zs"
  proof (intro first_index_hd_filter)
    show "i < length [0..<?n]" using assms(1) by simp
    show "?P ([0..<?n] ! i)" using assms(1) m by simp
    show "\<forall>k'<i. \<not> ?P ([0..<?n] ! k')"
      using assms(1,4) by (simp add: match_rows_Nil)
  qed
  then obtain zs where "filter ?P [0..<?n] = i # zs" using assms(1) by auto
  then show ?thesis
    using m by (simp add: find_student_def find_student_loop_filter)
qed

section \<open>Claims about the lookup\<close>




text \<open>
  Claim C7, as worded: the first matching row wins. On the roster with a roll number
  column, the first row that matches 12 is Jane Doe's (her registration number), but
  \<open>find_student\<close> returns John Roe's row, whose roll number, in the first column, is 12.
\<close>

theorem find_student_row_major_counterexample:
  "find_student ex_roster_roll ''12'' =
     Some [(''Roll'', CStr ''12''), (''Name'', CStr ''John Roe''), (''Reg_No'', CStr ''30'')] \<and>
   find_student_row_major ex_roster_roll ''12'' =
     Some [(''Roll'', CStr ''7''), (''Name'', CStr ''Jane Doe''), (''Reg_No'', CStr ''12'')]"
  by code_simp

text \<open>
  Claim C7, amended. The lookup compares the submitted number with every column of every
  record. It fails exactly when no cell matches. Otherwise the columns are taken in
  order: the first column that holds a match in any row decides, and within that column
  the first matching row is returned. The result is a function of the roster and the
  query, so it is deterministic.
\<close>

theorem find_student_first_column_then_first_row:
  "((find_student frame reg = None) =
      (\<forall>i<length (df_columns frame). \<forall>k<length (df_rows frame).
          \<not> cell_matches frame reg k i)) \<and>
   ((find_student frame reg = Some stu) =
      (\<exists>i k. i < length (df_columns frame) \<and> k < length (df_rows frame) \<and>
         cell_matches frame reg k i \<and>
         (\<forall>j<i. \<forall>k'<length (df_rows frame). \<not> cell_matches frame reg k' j) \<and>
         (\<forall>k'<k. \<not> cell_matches frame reg k' i) \<and>
         stu = to_dict frame (df_rows frame ! k)))"
proof (intro conjI)
  show "(find_student frame reg = None) =
      (\<forall>i<length (df_columns frame). \<forall>k<length (df_rows frame).
          \<not> cell_matches frame reg k i)"
    by (rule find_student_None)
  show "(find_student frame reg = Some stu) =
      (\<exists>i k. i < length (df_columns frame) \<and> k < length (df_rows frame) \<and>
         cell_matches frame reg k i \<and>
         (\<forall>j<i. \<forall>k'<length (df_rows frame). \<not> cell_matches frame reg k' j) \<and>
         (\<forall>k'<k. \<not> cell_matches frame reg k' i) \<and>
         stu = to_dict frame (df_rows frame ! k))"
    using find_student_Some_imp[of frame reg stu] find_student_Some_if[of _ frame _ reg]
    by blast
qed

theorem find_student_first_column_then_first_row_witness:
  "find_student ex_roster_roll ''12'' = Some (to_dict ex_roster_roll (df_rows ex_roster_roll ! 1))"
proof -
  have a: "cell_matches ex_roster_roll ''12'' 1 0" by code_simp
  have b: "\<not> cell_matches ex_roster_roll ''12'' 0 0" by code_simp
  have "\<exists>i k. i < length (df_columns ex_roster_roll) \<and> k < length (df_rows ex_roster_roll) \<and>
         cell_matches ex_roster_roll ''12'' k i \<and>
         (\<forall>j<i. \<forall>k'<length (df_rows ex_roster_roll). \<not> cell_matches ex_roster_roll ''12'' k' j) \<and>
         (\<forall>k'<k. \<not> cell_matches ex_roster_roll ''12'' k' i) \<and>
         to_dict ex_roster_roll (df_rows ex_roster_roll ! 1) = to_dict ex_roster_roll (df_rows ex_roster_roll ! k)"
    using a b by (intro exI[of _ 0] exI[of _ 1]) (simp add: ex_roster_roll_def less_Suc_eq)
  then show ?thesis
    using find_student_first_column_then_first_row[of ex_roster_roll "''12''"
        "to_dict ex_roster_roll (df_rows ex_roster_roll ! 1)"]
    by blast
qed

section \<open>The sections of the script, one at a time\<close>

lemma keeps_roster_refl: "keeps_roster r r"
  by (simp add: keeps_roster_def)

lemma keeps_roster_trans: "keeps_roster a b \<Longrightarrow> keeps_roster b c \<Longrightarrow> keeps_roster a c"
  by (simp add: keeps_roster_def)

lemma keeps_roster_emit:
  "el \<noteq> ButtonW Reload \<Longrightarrow> el \<noteq> Success AdminAccessGranted \<Longrightarrow> keeps_roster r (emit el r)"
  by (simp add: keeps_roster_def emit_def)

lemma andthen_snd: "snd (andthen x f) = snd x \<or> snd (andthen x f) = snd (f (snd x))"
  by (cases x) (auto simp: andthen_def split: status.splits)

lemma keeps_roster_andthen:
  assumes "keeps_roster r (snd x)" "\<And>r1. keeps_roster r1 (snd (f r1))"
  shows "keeps_roster r (snd (andthen x f))"
  using andthen_snd[of x f] assms keeps_roster_trans by metis

lemma keeps_roster_login: "keeps_roster r (snd (login_section e inp frame r))"
  by (auto simp: login_section_def keeps_roster_def emit_def Let_def split: option.splits)

lemma keeps_roster_timer: "keeps_roster r (snd (timer_gate cfg e t0 r))"
  by (auto simp: timer_gate_def keeps_roster_def emit_def Let_def)

lemma keeps_roster_watched: "keeps_roster r (snd (watched_button cfg e inp stu reg rem r))"
  by (auto simp: watched_button_def create_certificate_def keeps_roster_def emit_def Let_def
      split: option.splits)

lemma keeps_roster_download: "keeps_roster r (snd (download_section r))"
  by (auto simp: download_section_def get_pdf_download_link_def keeps_roster_def emit_def
      split: option.splits)

lemma keeps_roster_video: "keeps_roster r (snd (video_section cfg e inp r))"
proof (cases "timer_started (sess r) = Some True")
  case False
  then show ?thesis by (simp add: video_section_def keeps_roster_refl)
next
  case True
  show ?thesis
  proof (cases "student (sess r)")
    case None
    with True show ?thesis by (simp add: video_section_def keeps_roster_refl)
  next
    case (Some stu)
    let ?r1 = "emit (Subheader (SUBJECT cfg)) r"
    have r1: "keeps_roster r ?r1" by (simp add: keeps_roster_emit)
    show ?thesis
    proof (cases "login_time (sess r)")
      case None
      with True Some show ?thesis
        by (auto simp: video_section_def keeps_roster_def emit_def Let_def)
    next
      case t0: (Some t0)
      have "keeps_roster ?r1 (snd (andthen
                          (andthen (timer_gate cfg e t0 ?r1)
                             (\<lambda>r2. watched_button cfg e inp stu (dict_get stu ''Reg_No'' (CStr (reg_no inp))) (remaining_us cfg e t0)
                                     (emit (Video (py_replace ''watch?v='' ''embed/''
                                                     (VIDEO_URL cfg))) r2)))
                          download_section))"
        by (intro keeps_roster_andthen keeps_roster_timer keeps_roster_download
            keeps_roster_trans[OF keeps_roster_emit keeps_roster_watched]) simp_all
      with r1 True Some t0 show ?thesis
        by (simp add: video_section_def Let_def emit_def keeps_roster_trans)
    qed
  qed
qed

lemma keeps_roster_admin:
  "\<not> (admin_login inp \<and> pw inp = ADMIN_PASSWORD cfg) \<Longrightarrow>
     keeps_roster r (snd (admin_section cfg e inp r))"
  by (auto simp: admin_section_def keeps_roster_def emit_def Let_def)

lemma script_loaded:
  "df s = Some (Some frame) \<Longrightarrow>
     interact cfg e inp s fs =
       andthen (andthen (login_section e inp frame (emit Title (start s fs)))
                  (video_section cfg e inp))
         (admin_section cfg e inp)"
  by (simp add: interact_def script_def start_def emit_def Let_def)

lemma no_admin:
  assumes "df s = Some (Some frame)" "\<not> (admin_login inp \<and> pw inp = ADMIN_PASSWORD cfg)"
  shows "keeps_roster (start s fs) (snd (interact cfg e inp s fs))"
proof -
  have "keeps_roster (emit Title (start s fs)) (snd (interact cfg e inp s fs))"
    unfolding script_loaded[OF assms(1)]
    by (intro keeps_roster_andthen keeps_roster_login keeps_roster_video
        keeps_roster_admin assms(2))
  moreover have "keeps_roster (start s fs) (emit Title (start s fs))"
    by (simp add: keeps_roster_emit)
  ultimately show ?thesis by (rule keeps_roster_trans[rotated])
qed




lemma trunc_quot_nonneg: "0 \<le> a \<Longrightarrow> 0 < b \<Longrightarrow> trunc_quot a b = a div b"
  by (cases "a = 0") (simp_all add: trunc_quot_def)

lemma progress_in_range:
  assumes "0 \<le> el" "el < d"
  shows "0 \<le> trunc_quot (el * 100) d \<and> trunc_quot (el * 100) d \<le> 100"
proof -
  have d: "0 < d" using assms by simp
  have "trunc_quot (el * 100) d = (el * 100) div d"
    using assms d by (simp add: trunc_quot_nonneg)
  moreover have "0 \<le> (el * 100) div d" using assms d by (simp add: pos_imp_zdiv_nonneg_iff)
  moreover have "(el * 100) div d \<le> 100"
  proof -
    have "el * 100 \<le> 100 * d" using assms by simp
    then have "(el * 100) div d \<le> (100 * d) div d" by (rule zdiv_mono1) (rule d)
    then show ?thesis using d by simp
  qed
  ultimately show ?thesis by simp
qed

lemma timer_gate_waiting:
  assumes "video_done (sess r) \<noteq> None" "t0 \<le> now_timer e"
    "now_timer e - t0 < VIDEO_DURATION cfg * 1000000"
  shows "timer_gate cfg e t0 r =
    (Normal, emit (Progress (trunc_quot ((now_timer e - t0) * 100) (VIDEO_DURATION cfg * 1000000)))
       (emit (Info (TimeRemaining (py_int_seconds (remaining_us cfg e t0)))) r))"
proof -
  have "0 \<le> now_timer e - t0" using assms by simp
  from progress_in_range[OF this assms(3)] assms show ?thesis
    by (auto simp: timer_gate_def remaining_us_def Let_def)
qed

lemma timer_gate_done:
  assumes "video_done (sess r) \<noteq> None" "VIDEO_DURATION cfg * 1000000 \<le> now_timer e - t0"
  shows "timer_gate cfg e t0 r =
    (Normal, emit (Success VideoTimeCompleted) (r\<lparr>sess := (sess r)\<lparr>video_done := Some True\<rparr>\<rparr>))"
  using assms by (auto simp: timer_gate_def remaining_us_def Let_def)

lemma admin_section_idle:
  assumes "clicked inp \<noteq> Some Reload"
  shows "fst (admin_section cfg e inp r) = Normal"
    and "sess (snd (admin_section cfg e inp r)) = sess r"
    and "files (snd (admin_section cfg e inp r)) = files r"
    and "calls (snd (admin_section cfg e inp r)) = calls r"
    and "\<exists>tl. page (snd (admin_section cfg e inp r)) = page r @ tl \<and>
           set tl \<subseteq> {Rule, AdminCheckbox, PasswordInput, Success AdminAccessGranted,
                      ButtonW Reload}"
  using assms by (auto simp: admin_section_def emit_def Let_def)

text \<open>A click on the button before the duration has elapsed.\<close>

lemma premature:
  assumes "df s = Some (Some frame)" "timer_started s = Some True" "student s = Some stu"
    "login_time s = Some t0" "video_done s = Some False" "certificate_ready s = Some False"
    "clicked inp = Some Watched" "t0 \<le> now_timer e"
    "now_timer e - t0 < VIDEO_DURATION cfg * 1000000"
  shows "fst (interact cfg e inp s fs) = Normal"
    and "sess (snd (interact cfg e inp s fs)) = s"
    and "calls (snd (interact cfg e inp s fs)) = []"
    and "files (snd (interact cfg e inp s fs)) = fs"
    and "Warning (NeedFinishWatching (py_int_seconds (remaining_us cfg e t0)))
           \<in> set (page (snd (interact cfg e inp s fs)))"
  using assms
  by (simp_all add: interact_def script_def start_def emit_def login_section_def andthen_def
      video_section_def timer_gate_waiting watched_button_def download_section_def
      admin_section_def Let_def)

text \<open>A click on the button once the duration has elapsed.\<close>

lemma eligible_click_calls:
  assumes "df s = Some (Some frame)" "timer_started s = Some True" "student s = Some stu"
    "login_time s = Some t0" "video_done s = Some vd" 
    "clicked inp = Some Watched"
    "VIDEO_DURATION cfg * 1000000 \<le> now_timer e - t0"
  shows "calls (snd (interact cfg e inp s fs)) =
           [CreateCertificate (dict_get stu ''Name'' (CStr ''Student''))
              (dict_get stu ''Reg_No'' (CStr (reg_no inp))) (SUBJECT cfg)]"
  using assms
  by (cases "fpdf_raises e")
     (simp_all add: interact_def script_def start_def emit_def login_section_def andthen_def
      video_section_def timer_gate_done watched_button_def download_section_def
      create_certificate_def get_pdf_download_link_def
      admin_section_def Let_def)

lemma eligible_click_ok:
  assumes "df s = Some (Some frame)" "timer_started s = Some True" "student s = Some stu"
    "login_time s = Some t0" "video_done s = Some vd" 
    "clicked inp = Some Watched"
    "VIDEO_DURATION cfg * 1000000 \<le> now_timer e - t0"
    "fpdf_raises e = None"
  shows "fst (interact cfg e inp s fs) = Normal"
    and "sess (snd (interact cfg e inp s fs)) =
           s\<lparr>video_done := Some True,
             certificate_path := Some (cert_path (dict_get stu ''Reg_No'' (CStr (reg_no inp))) (SUBJECT cfg)),
             certificate_ready := Some True\<rparr>"
    and "files (snd (interact cfg e inp s fs)) =
           fs(cert_path (dict_get stu ''Reg_No'' (CStr (reg_no inp))) (SUBJECT cfg) \<mapsto>
              \<lparr>pdf_name = dict_get stu ''Name'' (CStr ''Student''),
                pdf_reg_no = dict_get stu ''Reg_No'' (CStr (reg_no inp)),
                pdf_subject = SUBJECT cfg, pdf_date = today e\<rparr>)"
    and "DownloadLink (basename (cert_path (dict_get stu ''Reg_No'' (CStr (reg_no inp))) (SUBJECT cfg)))
              \<lparr>pdf_name = dict_get stu ''Name'' (CStr ''Student''),
                pdf_reg_no = dict_get stu ''Reg_No'' (CStr (reg_no inp)),
                pdf_subject = SUBJECT cfg, pdf_date = today e\<rparr>
           \<in> set (page (snd (interact cfg e inp s fs)))"
  using assms
  by (simp_all add: interact_def script_def start_def emit_def login_section_def andthen_def
      video_section_def timer_gate_done watched_button_def download_section_def
      create_certificate_def get_pdf_download_link_def
      admin_section_def Let_def)

lemma eligible_click_fail:
  assumes "df s = Some (Some frame)" "timer_started s = Some True" "student s = Some stu"
    "login_time s = Some t0" "video_done s = Some vd" "certificate_ready s = Some cr"
    "clicked inp = Some Watched"
    "VIDEO_DURATION cfg * 1000000 \<le> now_timer e - t0"
    "fpdf_raises e = Some x"
  shows "interact cfg e inp s fs =
           (Uncaught x,
            \<lparr>sess = s\<lparr>video_done := Some True\<rparr>, files = fs,
             page = [Title, RegNoInput, ButtonW Login, Subheader (SUBJECT cfg),
                     Success VideoTimeCompleted,
                     Video (py_replace ''watch?v='' ''embed/'' (VIDEO_URL cfg)),
                     ButtonW Watched],
             calls = [CreateCertificate (dict_get stu ''Name'' (CStr ''Student''))
                        (dict_get stu ''Reg_No'' (CStr (reg_no inp))) (SUBJECT cfg)]\<rparr>)"
  using assms
  by (simp add: interact_def script_def start_def emit_def login_section_def andthen_def
      video_section_def timer_gate_done watched_button_def download_section_def
      create_certificate_def get_pdf_download_link_def
      admin_section_def Let_def)

text \<open>A click on the login button.\<close>

lemmas handler_defs = interact_def script_def start_def emit_def login_section_def andthen_def
      video_section_def watched_button_def download_section_def
      admin_section_def Let_def

lemma login_found:
  assumes "df s = Some (Some frame)" "clicked inp = Some Login" "reg_no inp \<noteq> []"
    "find_student frame (reg_no inp) = Some stu" "now_login e \<le> now_timer e"
  shows "fst (interact cfg e inp s fs) = Normal"
    and "sess (snd (interact cfg e inp s fs)) =
           s\<lparr>student := Some stu, login_time := Some (now_login e),
             timer_started := Some True,
             video_done := Some (VIDEO_DURATION cfg * 1000000 \<le> now_timer e - now_login e),
             certificate_ready := Some False\<rparr>"
    and "files (snd (interact cfg e inp s fs)) = fs"
    and "calls (snd (interact cfg e inp s fs)) = []"
    and "Success (Welcome (dict_get stu ''Name'' (CStr ''Student'')))
           \<in> set (page (snd (interact cfg e inp s fs)))"
    and "\<forall>n d. DownloadLink n d \<notin> set (page (snd (interact cfg e inp s fs)))"
proof -
  consider (w) "now_timer e - now_login e < VIDEO_DURATION cfg * 1000000"
    | (d) "VIDEO_DURATION cfg * 1000000 \<le> now_timer e - now_login e" by linarith
  then have "fst (interact cfg e inp s fs) = Normal \<and>
     sess (snd (interact cfg e inp s fs)) =
           s\<lparr>student := Some stu, login_time := Some (now_login e),
             timer_started := Some True,
             video_done := Some (VIDEO_DURATION cfg * 1000000 \<le> now_timer e - now_login e),
             certificate_ready := Some False\<rparr> \<and>
     files (snd (interact cfg e inp s fs)) = fs \<and>
     calls (snd (interact cfg e inp s fs)) = [] \<and>
     Success (Welcome (dict_get stu ''Name'' (CStr ''Student'')))
           \<in> set (page (snd (interact cfg e inp s fs))) \<and>
     (\<forall>n d. DownloadLink n d \<notin> set (page (snd (interact cfg e inp s fs))))"
  proof cases
    case w
    with assms show ?thesis
      by (simp add: handler_defs timer_gate_waiting)
  next
    case d
    with assms show ?thesis
      by (simp add: handler_defs timer_gate_done)
  qed
  then show "fst (interact cfg e inp s fs) = Normal"
    and "sess (snd (interact cfg e inp s fs)) =
           s\<lparr>student := Some stu, login_time := Some (now_login e),
             timer_started := Some True,
             video_done := Some (VIDEO_DURATION cfg * 1000000 \<le> now_timer e - now_login e),
             certificate_ready := Some False\<rparr>"
    and "files (snd (interact cfg e inp s fs)) = fs"
    and "calls (snd (interact cfg e inp s fs)) = []"
    and "Success (Welcome (dict_get stu ''Name'' (CStr ''Student'')))
           \<in> set (page (snd (interact cfg e inp s fs)))"
    and "\<forall>n d. DownloadLink n d \<notin> set (page (snd (interact cfg e inp s fs)))"
    by simp_all
qed

lemma login_not_found:
  assumes "df s = Some (Some frame)" "clicked inp = Some Login" "reg_no inp \<noteq> []"
    "find_student frame (reg_no inp) = None" "timer_started s \<noteq> Some True"
  shows "fst (interact cfg e inp s fs) = Normal"
    and "sess (snd (interact cfg e inp s fs)) = s"
    and "files (snd (interact cfg e inp s fs)) = fs"
    and "calls (snd (interact cfg e inp s fs)) = []"
    and "Error RegNoNotFound \<in> set (page (snd (interact cfg e inp s fs)))"
  using assms by (simp_all add: handler_defs)

lemma login_empty:
  assumes "df s = Some (Some frame)" "clicked inp = Some Login" "reg_no inp = []"
    "timer_started s \<noteq> Some True"
  shows "fst (interact cfg e inp s fs) = Normal"
    and "sess (snd (interact cfg e inp s fs)) = s"
    and "files (snd (interact cfg e inp s fs)) = fs"
    and "calls (snd (interact cfg e inp s fs)) = []"
    and "\<forall>m. Error m \<notin> set (page (snd (interact cfg e inp s fs)))"
  using assms by (simp_all add: handler_defs)

text \<open>What a run does to the stored student and to the roster.\<close>

lemma andthen_Normal:
  "fst (andthen x f) = Normal \<Longrightarrow> fst x = Normal \<and> andthen x f = f (snd x)"
  by (cases x) (auto simp: andthen_def split: status.splits)

lemma andthen_keeps:
  assumes "g (snd x) = g r" "\<And>r1. g (snd (f r1)) = g r1"
  shows "g (snd (andthen x f)) = g r"
  using andthen_snd[of x f] assms by metis

lemma student_login:
  "student (sess (snd (login_section e inp frame r))) =
     (if clicked inp = Some Login \<and> reg_no inp \<noteq> []
      then (case find_student frame (reg_no inp) of None \<Rightarrow> student (sess r)
            | Some stu \<Rightarrow> Some stu)
      else student (sess r))"
  by (simp add: login_section_def emit_def Let_def split: option.splits)

lemma student_timer: "student (sess (snd (timer_gate cfg e t0 r))) = student (sess r)"
  by (simp add: timer_gate_def emit_def Let_def)

lemma student_watched:
  "student (sess (snd (watched_button cfg e inp stu reg rem r))) = student (sess r)"
  by (simp add: watched_button_def create_certificate_def emit_def Let_def
      split: option.splits)

lemma student_download: "student (sess (snd (download_section r))) = student (sess r)"
  by (simp add: download_section_def get_pdf_download_link_def emit_def
      split: option.splits)

lemma student_admin: "student (sess (snd (admin_section cfg e inp r))) = student (sess r)"
  by (simp add: admin_section_def load_student_file_def emit_def Let_def
      split: sum.splits)

lemma student_video: "student (sess (snd (video_section cfg e inp r))) = student (sess r)"
proof (cases "timer_started (sess r) = Some True")
  case False
  then show ?thesis by (simp add: video_section_def)
next
  case True
  show ?thesis
  proof (cases "student (sess r)")
    case None
    with True show ?thesis by (simp add: video_section_def)
  next
    case (Some stu)
    let ?r1 = "emit (Subheader (SUBJECT cfg)) r"
    show ?thesis
    proof (cases "login_time (sess r)")
      case None
      with True Some show ?thesis
        by (simp add: video_section_def emit_def Let_def)
    next
      case t0: (Some t0)
      let ?g = "\<lambda>r. student (sess r)"
      have a: "?g (snd (andthen (timer_gate cfg e t0 ?r1)
                 (\<lambda>r2. watched_button cfg e inp stu (dict_get stu ''Reg_No'' (CStr (reg_no inp)))
                     (remaining_us cfg e t0)
                     (emit (Video (py_replace ''watch?v='' ''embed/'' (VIDEO_URL cfg))) r2)))) = ?g r"
        by (rule andthen_keeps[where g = ?g])
           (simp_all add: student_timer student_watched emit_def)
      have "?g (snd (andthen (andthen (timer_gate cfg e t0 ?r1)
                 (\<lambda>r2. watched_button cfg e inp stu (dict_get stu ''Reg_No'' (CStr (reg_no inp)))
                     (remaining_us cfg e t0)
                     (emit (Video (py_replace ''watch?v='' ''embed/'' (VIDEO_URL cfg))) r2)))
               download_section)) = ?g r"
        by (rule andthen_keeps[where g = ?g, OF a]) (simp add: student_download)
      with True Some t0 show ?thesis
        by (simp add: video_section_def Let_def emit_def)
    qed
  qed
qed

lemma student_after_run:
  assumes "df s = Some (Some frame)"
  shows "student (sess (snd (interact cfg e inp s fs))) =
     (if clicked inp = Some Login \<and> reg_no inp \<noteq> []
      then (case find_student frame (reg_no inp) of None \<Rightarrow> student s | Some stu \<Rightarrow> Some stu)
      else student s)"
proof -
  let ?g = "\<lambda>r. student (sess r)"
  let ?x = "login_section e inp frame (emit Title (start s fs))"
  have a: "?g (snd (andthen ?x (video_section cfg e inp))) = ?g (snd ?x)"
    by (rule andthen_keeps[where g = ?g]) (simp_all add: student_video)
  have "?g (snd (andthen (andthen ?x (video_section cfg e inp)) (admin_section cfg e inp)))
          = ?g (snd ?x)"
    by (rule andthen_keeps[where g = ?g, OF a]) (simp add: student_admin)
  then show ?thesis
    by (simp add: script_loaded[OF assms] student_login emit_def start_def
        split: option.splits)
qed

lemma admin_reload:
  assumes "admin_login inp" "pw inp = ADMIN_PASSWORD cfg" "clicked inp = Some Reload"
  shows "df (sess (snd (admin_section cfg e inp r))) =
           Some (if file_exists e
                 then (case decrypt_read e of
                         Inl x \<Rightarrow> None
                       | Inr f \<Rightarrow> if df_empty f then None else Some f)
                 else None)"
    and "calls (snd (admin_section cfg e inp r)) = calls r @ [LoadStudentFile]"
    and "page (snd (admin_section cfg e inp r)) =
           page r @ [Rule, AdminCheckbox, PasswordInput, Success AdminAccessGranted,
                     ButtonW Reload,
                     if file_exists e
                     then (case decrypt_read e of
                             Inl x \<Rightarrow> Error (FailedToDecrypt x)
                           | Inr f \<Rightarrow> if df_empty f then Error DecryptedFileEmpty
                                      else Success StudentListLoaded)
                     else Error (EncryptedFileNotFound (AES_FILE cfg))]"
  using assms
  by (simp_all add: admin_section_def load_student_file_def emit_def Let_def
      split: sum.splits)

lemma reload_run:
  assumes "df s = Some (Some frame)" "admin_login inp" "pw inp = ADMIN_PASSWORD cfg"
    "clicked inp = Some Reload" "fst (interact cfg e inp s fs) = Normal"
  shows "df (sess (snd (interact cfg e inp s fs))) =
           Some (if file_exists e
                 then (case decrypt_read e of
                         Inl x \<Rightarrow> None
                       | Inr f \<Rightarrow> if df_empty f then None else Some f)
                 else None)"
    and "last (page (snd (interact cfg e inp s fs))) =
           (if file_exists e
            then (case decrypt_read e of
                    Inl x \<Rightarrow> Error (FailedToDecrypt x)
                  | Inr f \<Rightarrow> if df_empty f then Error DecryptedFileEmpty
                             else Success StudentListLoaded)
            else Error (EncryptedFileNotFound (AES_FILE cfg)))"
proof -
  let ?x = "andthen (login_section e inp frame (emit Title (start s fs)))
              (video_section cfg e inp)"
  have "interact cfg e inp s fs = admin_section cfg e inp (snd ?x)"
    using andthen_Normal[of ?x "admin_section cfg e inp"] assms(5)
    by (simp add: script_loaded[OF assms(1)])
  then show "df (sess (snd (interact cfg e inp s fs))) =
           Some (if file_exists e
                 then (case decrypt_read e of
                         Inl x \<Rightarrow> None
                       | Inr f \<Rightarrow> if df_empty f then None else Some f)
                 else None)"
    and "last (page (snd (interact cfg e inp s fs))) =
           (if file_exists e
            then (case decrypt_read e of
                    Inl x \<Rightarrow> Error (FailedToDecrypt x)
                  | Inr f \<Rightarrow> if df_empty f then Error DecryptedFileEmpty
                             else Success StudentListLoaded)
            else Error (EncryptedFileNotFound (AES_FILE cfg)))"
    by (simp_all add: admin_reload[OF assms(2-4)])
qed


section \<open>Claims about the session\<close>

text \<open>
  Claim C1. Take a session in Watching (logged in, no certificate yet) whose stored flag
  \<open>video_done\<close> agrees with the clock (it is set only by a run in which the duration had
  elapsed, and the clock does not go back). A click on the button while the elapsed time
  is below the required duration leaves the whole session, so also the phase, as it
  is, calls no collaborator, writes no file, and shows the warning with the whole
  number of seconds that remain. A click when the elapsed time has reached the required
  duration, also at exactly that instant, calls the issuer once, and when the issuer
  returns the session is Certified with the path stored.
\<close>

theorem confirmWatched_time_gate:
  assumes "df s = Some (Some frame)"
    and "timer_started s = Some True" and "certificate_ready s = Some False"
    and "student s = Some stu" and "login_time s = Some t0"
    and "video_done s = Some vd"
    and "vd \<longrightarrow> VIDEO_DURATION cfg * 1000000 \<le> now_timer e - t0"
    and "t0 \<le> now_timer e"
    and "clicked inp = Some Watched"
  shows "(now_timer e - t0 < VIDEO_DURATION cfg * 1000000 \<longrightarrow>
            fst (interact cfg e inp s fs) = Normal \<and>
            sess (snd (interact cfg e inp s fs)) = s \<and>
            phase_of (sess (snd (interact cfg e inp s fs))) = Watching \<and>
            calls (snd (interact cfg e inp s fs)) = [] \<and>
            files (snd (interact cfg e inp s fs)) = fs \<and>
            Warning (NeedFinishWatching
                       ((VIDEO_DURATION cfg * 1000000 - (now_timer e - t0)) div 1000000))
              \<in> set (page (snd (interact cfg e inp s fs)))) \<and>
         (VIDEO_DURATION cfg * 1000000 \<le> now_timer e - t0 \<longrightarrow>
            calls (snd (interact cfg e inp s fs)) =
              [CreateCertificate (dict_get stu ''Name'' (CStr ''Student''))
                 (dict_get stu ''Reg_No'' (CStr (reg_no inp))) (SUBJECT cfg)] \<and>
            (fpdf_raises e = None \<longrightarrow>
               fst (interact cfg e inp s fs) = Normal \<and>
               phase_of (sess (snd (interact cfg e inp s fs))) = Certified \<and>
               certificate_path (sess (snd (interact cfg e inp s fs))) =
                 Some (cert_path (dict_get stu ''Reg_No'' (CStr (reg_no inp))) (SUBJECT cfg))))"
proof (intro conjI impI)
  assume early: "now_timer e - t0 < VIDEO_DURATION cfg * 1000000"
  with assms(6,7) have vd: "video_done s = Some False" by auto
  note p = premature[OF assms(1,2,4,5) vd assms(3,9,8) early, of fs]
  show "fst (interact cfg e inp s fs) = Normal" by (rule p(1))
  show "sess (snd (interact cfg e inp s fs)) = s" by (rule p(2))
  show "phase_of (sess (snd (interact cfg e inp s fs))) = Watching"
    using assms(2,3) by (simp add: p(2) phase_of_def)
  show "calls (snd (interact cfg e inp s fs)) = []" by (rule p(3))
  show "files (snd (interact cfg e inp s fs)) = fs" by (rule p(4))
  have "py_int_seconds (remaining_us cfg e t0) =
          (VIDEO_DURATION cfg * 1000000 - (now_timer e - t0)) div 1000000"
    using early by (simp add: py_int_seconds_def remaining_us_def trunc_quot_nonneg)
  with p(5) show "Warning (NeedFinishWatching
                       ((VIDEO_DURATION cfg * 1000000 - (now_timer e - t0)) div 1000000))
              \<in> set (page (snd (interact cfg e inp s fs)))" by simp
next
  assume late: "VIDEO_DURATION cfg * 1000000 \<le> now_timer e - t0"
  show "calls (snd (interact cfg e inp s fs)) =
              [CreateCertificate (dict_get stu ''Name'' (CStr ''Student''))
                 (dict_get stu ''Reg_No'' (CStr (reg_no inp))) (SUBJECT cfg)]"
    by (rule eligible_click_calls[OF assms(1,2,4,5,6,9) late])
  assume ok: "fpdf_raises e = None"
  note k = eligible_click_ok[OF assms(1,2,4,5,6,9) late ok, of fs]
  show "fst (interact cfg e inp s fs) = Normal" by (rule k(1))
  show "phase_of (sess (snd (interact cfg e inp s fs))) = Certified"
    using assms(2) by (simp add: k(2) phase_of_def)
  show "certificate_path (sess (snd (interact cfg e inp s fs))) =
                 Some (cert_path (dict_get stu ''Reg_No'' (CStr (reg_no inp))) (SUBJECT cfg))"
    by (simp add: k(2))
qed

theorem confirmWatched_time_gate_witness:
  "sess (snd (interact ex_config (ex_env 599000000 None) (ex_input ''A100'' (Some Watched))
                 ex_watching Map.empty)) = ex_watching \<and>
   calls (snd (interact ex_config (ex_env 599000000 None) (ex_input ''A100'' (Some Watched))
                 ex_watching Map.empty)) = [] \<and>
   Warning (NeedFinishWatching 1)
     \<in> set (page (snd (interact ex_config (ex_env 599000000 None)
                           (ex_input ''A100'' (Some Watched)) ex_watching Map.empty))) \<and>
   calls (snd (interact ex_config (ex_env 600000000 None) (ex_input ''A100'' (Some Watched))
                 ex_watching Map.empty)) =
     [CreateCertificate (CStr ''Jane Doe'') (CStr ''A100'') ''CS22301 Microlearning''] \<and>
   phase_of (sess (snd (interact ex_config (ex_env 600000000 None)
                          (ex_input ''A100'' (Some Watched)) ex_watching Map.empty))) = Certified"
proof -
  have h: "df ex_watching = Some (Some ex_roster)" "timer_started ex_watching = Some True"
    "certificate_ready ex_watching = Some False" "student ex_watching = Some ex_student"
    "login_time ex_watching = Some 0" "video_done ex_watching = Some False"
    by (simp_all add: ex_watching_def)
  have c: "clicked (ex_input ''A100'' (Some Watched)) = Some Watched"
    by (simp add: ex_input_def)
  have a: "False \<longrightarrow> VIDEO_DURATION ex_config * 1000000 \<le> now_timer (ex_env 599000000 None) - 0"
    "0 \<le> now_timer (ex_env 599000000 None)" by (simp_all add: ex_env_def)
  have b: "False \<longrightarrow> VIDEO_DURATION ex_config * 1000000 \<le> now_timer (ex_env 600000000 None) - 0"
    "0 \<le> now_timer (ex_env 600000000 None)" by (simp_all add: ex_env_def)
  note w1 = confirmWatched_time_gate[OF h a c, of Map.empty]
  note w2 = confirmWatched_time_gate[OF h b c, of Map.empty]
  have n: "dict_get ex_student ''Name'' (CStr ''Student'') = CStr ''Jane Doe''"
    "dict_get ex_student ''Reg_No'' (CStr ''A100'') = CStr ''A100''"
    by (simp_all add: dict_get_def ex_student_def)
  from w1 w2 show ?thesis
    by (simp add: ex_config_def ex_env_def ex_input_def n)
qed

text \<open>
  Claim C8. On an eligible session whose student record has the columns \<open>Name\<close> and
  \<open>Reg_No\<close>, a confirmation that succeeds calls the issuer once, with the record's
  name, the record's registration number and the configured subject; the session is
  then Certified, \<open>certificate_path\<close> holds the path the issuer returned, and the
  document at that path carries those three values. (Without a column \<open>Name\<close> the
  literal \<open>Student\<close> is passed, and without a column \<open>Reg_No\<close> the text of the input
  box: the code looks the registration number up under that one key.)
\<close>

theorem confirmWatched_issues_certificate:
  assumes "df s = Some (Some frame)"
    and "timer_started s = Some True"
    and "student s = Some stu" and "login_time s = Some t0"
    and "video_done s = Some vd"
    and "clicked inp = Some Watched"
    and "VIDEO_DURATION cfg * 1000000 \<le> now_timer e - t0"
    and "fpdf_raises e = None"
    and "map_of stu ''Name'' = Some name" and "map_of stu ''Reg_No'' = Some reg"
  shows "fst (interact cfg e inp s fs) = Normal \<and>
         calls (snd (interact cfg e inp s fs)) = [CreateCertificate name reg (SUBJECT cfg)] \<and>
         phase_of (sess (snd (interact cfg e inp s fs))) = Certified \<and>
         certificate_path (sess (snd (interact cfg e inp s fs))) =
           Some (cert_path reg (SUBJECT cfg)) \<and>
         files (snd (interact cfg e inp s fs)) (cert_path reg (SUBJECT cfg)) =
           Some \<lparr>pdf_name = name, pdf_reg_no = reg, pdf_subject = SUBJECT cfg,
                 pdf_date = today e\<rparr>"
proof -
  have n: "dict_get stu ''Name'' (CStr ''Student'') = name"
    "dict_get stu ''Reg_No'' (CStr (reg_no inp)) = reg"
    using assms(9,10) by (simp_all add: dict_get_def)
  note k = eligible_click_ok[OF assms(1-8), of fs, unfolded n]
  note c = eligible_click_calls[OF assms(1-7), of fs, unfolded n]
  show ?thesis
    using assms(2) by (simp add: k c phase_of_def)
qed

theorem confirmWatched_issues_certificate_witness:
  "calls (snd (interact ex_config (ex_env 600000000 None) (ex_input ''A100'' (Some Watched))
                 ex_watching Map.empty)) =
     [CreateCertificate (CStr ''Jane Doe'') (CStr ''A100'') ''CS22301 Microlearning''] \<and>
   sess (snd (interact ex_config (ex_env 600000000 None) (ex_input ''A100'' (Some Watched))
                 ex_watching Map.empty)) = ex_certified \<and>
   files (snd (interact ex_config (ex_env 600000000 None) (ex_input ''A100'' (Some Watched))
                 ex_watching Map.empty)) ''certificates/A100_CS22301_Microlearning.pdf'' =
     Some ex_doc"
proof -
  have h: "df ex_watching = Some (Some ex_roster)" "timer_started ex_watching = Some True"
    "student ex_watching = Some ex_student"
    "login_time ex_watching = Some 0" "video_done ex_watching = Some False"
    by (simp_all add: ex_watching_def)
  have c: "clicked (ex_input ''A100'' (Some Watched)) = Some Watched"
    by (simp add: ex_input_def)
  have a: "VIDEO_DURATION ex_config * 1000000 \<le> now_timer (ex_env 600000000 None) - 0"
    "fpdf_raises (ex_env 600000000 None) = None"
    by (simp_all add: ex_env_def ex_config_def)
  have m: "map_of ex_student ''Name'' = Some (CStr ''Jane Doe'')"
    "map_of ex_student ''Reg_No'' = Some (CStr ''A100'')"
    by (simp_all add: ex_student_def)
  have p: "cert_path (CStr ''A100'') (SUBJECT ex_config) =
             ''certificates/A100_CS22301_Microlearning.pdf''"
    by code_simp
  have full: "sess (snd (interact ex_config (ex_env 600000000 None)
                 (ex_input ''A100'' (Some Watched)) ex_watching Map.empty)) = ex_certified"
    by code_simp
  from confirmWatched_issues_certificate[OF h c a m, of Map.empty] full show ?thesis
    by (simp add: p) (simp add: ex_config_def ex_env_def ex_doc_def)
qed

text \<open>
  Claim C2, as worded: a confirmation on a Certified session does not call the issuer
  again. In the scenario the login at time 0 gives \<open>ex_watching\<close>, the confirmation at
  600 s gives \<open>ex_certified\<close>, and the confirmation at 601 s on that Certified session
  calls \<open>create_certificate\<close> once more.
\<close>

theorem confirmWatched_again_counterexample:
  "sess (snd (interact ex_config (ex_env 0 None) (ex_input ''A100'' (Some Login))
                ex_anonymous Map.empty)) = ex_watching \<and>
   sess (snd (interact ex_config (ex_env 600000000 None) (ex_input ''A100'' (Some Watched))
                ex_watching Map.empty)) = ex_certified \<and>
   phase_of ex_certified = Certified \<and>
   calls (snd (interact ex_config (ex_env 601000000 None) (ex_input ''A100'' (Some Watched))
                 ex_certified ex_files)) =
     [CreateCertificate (CStr ''Jane Doe'') (CStr ''A100'') ''CS22301 Microlearning'']"
  by code_simp

text \<open>
  Claim C2, amended. On a Certified session (so the duration has elapsed), the
  confirmation calls the issuer again, once, with the name of the stored record, the
  subject, and as registration number the record's \<open>Reg_No\<close> or, when the record has
  no such column, the text that is in the input box at that moment. When the issuer
  returns, the document at the path made of that registration number and the subject
  is written, with the date of that day, the session stays Certified,
  \<open>certificate_path\<close> is that path, and the download link to the new document is shown.
  For a record with a column \<open>Reg_No\<close> this is the call of every confirmation on that
  record, whatever the input box holds, and the path is the one already stored: the
  handle is kept and the document behind it regenerated. For a record without it, call
  and path follow the input box and may differ from the first ones.
\<close>

theorem confirmWatched_again_reissues:
  assumes "df s = Some (Some frame)"
    and "timer_started s = Some True" and "certificate_ready s = Some True"
    and "student s = Some stu" and "login_time s = Some t0"
    and "video_done s = Some True"
    and "handle_matches cfg s"
    and "clicked inp = Some Watched"
    and "VIDEO_DURATION cfg * 1000000 \<le> now_timer e - t0"
  shows "calls (snd (interact cfg e inp s fs)) =
           [CreateCertificate (dict_get stu ''Name'' (CStr ''Student''))
              (dict_get stu ''Reg_No'' (CStr (reg_no inp))) (SUBJECT cfg)] \<and>
         (fpdf_raises e = None \<longrightarrow>
            fst (interact cfg e inp s fs) = Normal \<and>
            phase_of (sess (snd (interact cfg e inp s fs))) = Certified \<and>
            certificate_path (sess (snd (interact cfg e inp s fs))) =
              Some (cert_path (dict_get stu ''Reg_No'' (CStr (reg_no inp))) (SUBJECT cfg)) \<and>
            files (snd (interact cfg e inp s fs))
                (cert_path (dict_get stu ''Reg_No'' (CStr (reg_no inp))) (SUBJECT cfg)) =
              Some \<lparr>pdf_name = dict_get stu ''Name'' (CStr ''Student''),
                    pdf_reg_no = dict_get stu ''Reg_No'' (CStr (reg_no inp)),
                    pdf_subject = SUBJECT cfg, pdf_date = today e\<rparr> \<and>
            DownloadLink
                (basename (cert_path (dict_get stu ''Reg_No'' (CStr (reg_no inp))) (SUBJECT cfg)))
                \<lparr>pdf_name = dict_get stu ''Name'' (CStr ''Student''),
                  pdf_reg_no = dict_get stu ''Reg_No'' (CStr (reg_no inp)),
                  pdf_subject = SUBJECT cfg, pdf_date = today e\<rparr>
              \<in> set (page (snd (interact cfg e inp s fs)))) \<and>
         (\<forall>reg. map_of stu ''Reg_No'' = Some reg \<longrightarrow>
            calls (snd (interact cfg e inp s fs)) =
              [CreateCertificate (dict_get stu ''Name'' (CStr ''Student'')) reg (SUBJECT cfg)] \<and>
            certificate_path s = Some (cert_path reg (SUBJECT cfg)) \<and>
            (fpdf_raises e = None \<longrightarrow>
               certificate_path (sess (snd (interact cfg e inp s fs))) = certificate_path s \<and>
               files (snd (interact cfg e inp s fs)) (cert_path reg (SUBJECT cfg)) =
                 Some \<lparr>pdf_name = dict_get stu ''Name'' (CStr ''Student''),
                       pdf_reg_no = reg, pdf_subject = SUBJECT cfg, pdf_date = today e\<rparr>)) \<and>
         (map_of stu ''Reg_No'' = None \<longrightarrow>
            calls (snd (interact cfg e inp s fs)) =
              [CreateCertificate (dict_get stu ''Name'' (CStr ''Student''))
                 (CStr (reg_no inp)) (SUBJECT cfg)] \<and>
            (fpdf_raises e = None \<longrightarrow>
               certificate_path (sess (snd (interact cfg e inp s fs))) =
                 Some (cert_path (CStr (reg_no inp)) (SUBJECT cfg))))"
proof -
  let ?name = "dict_get stu ''Name'' (CStr ''Student'')"
  let ?reg = "dict_get stu ''Reg_No'' (CStr (reg_no inp))"
  let ?doc = "\<lparr>pdf_name = ?name, pdf_reg_no = ?reg, pdf_subject = SUBJECT cfg,
               pdf_date = today e\<rparr>"
  have c: "calls (snd (interact cfg e inp s fs)) =
             [CreateCertificate ?name ?reg (SUBJECT cfg)]"
    by (rule eligible_click_calls[OF assms(1,2,4,5,6,8,9)])
  have ok: "fst (interact cfg e inp s fs) = Normal \<and>
            phase_of (sess (snd (interact cfg e inp s fs))) = Certified \<and>
            certificate_path (sess (snd (interact cfg e inp s fs))) =
              Some (cert_path ?reg (SUBJECT cfg)) \<and>
            files (snd (interact cfg e inp s fs)) (cert_path ?reg (SUBJECT cfg)) = Some ?doc \<and>
            DownloadLink (basename (cert_path ?reg (SUBJECT cfg))) ?doc
              \<in> set (page (snd (interact cfg e inp s fs)))"
    if "fpdf_raises e = None"
  proof -
    note k = eligible_click_ok[OF assms(1,2,4,5,6,8,9) that, of fs]
    show ?thesis using assms(2) k(4) by (simp add: k(1,2,3) phase_of_def)
  qed
  have with_key: "?reg = reg \<and> certificate_path s = Some (cert_path reg (SUBJECT cfg))"
    if "map_of stu ''Reg_No'' = Some reg" for reg
    using that assms(3,4,7) by (simp add: dict_get_def handle_matches_def)
  have no_key: "?reg = CStr (reg_no inp)" if "map_of stu ''Reg_No'' = None"
    using that by (simp add: dict_get_def)
  show ?thesis
  proof (intro conjI impI allI)
    show "calls (snd (interact cfg e inp s fs)) =
             [CreateCertificate ?name ?reg (SUBJECT cfg)]" by (rule c)
  next
    fix reg assume k: "map_of stu ''Reg_No'' = Some reg"
    show "calls (snd (interact cfg e inp s fs)) =
            [CreateCertificate ?name reg (SUBJECT cfg)]"
      using c with_key[OF k] by simp
    show "certificate_path s = Some (cert_path reg (SUBJECT cfg))"
      using with_key[OF k] by simp
    assume f: "fpdf_raises e = None"
    show "certificate_path (sess (snd (interact cfg e inp s fs))) = certificate_path s"
      using ok[OF f] with_key[OF k] by simp
    show "files (snd (interact cfg e inp s fs)) (cert_path reg (SUBJECT cfg)) =
            Some \<lparr>pdf_name = ?name, pdf_reg_no = reg, pdf_subject = SUBJECT cfg,
                  pdf_date = today e\<rparr>"
      using ok[OF f] with_key[OF k] by simp
  next
    assume n: "map_of stu ''Reg_No'' = None"
    show "calls (snd (interact cfg e inp s fs)) =
            [CreateCertificate ?name (CStr (reg_no inp)) (SUBJECT cfg)]"
      using c no_key[OF n] by simp
    assume f: "fpdf_raises e = None"
    show "certificate_path (sess (snd (interact cfg e inp s fs))) =
            Some (cert_path (CStr (reg_no inp)) (SUBJECT cfg))"
      using ok[OF f] no_key[OF n] by simp
  qed (use ok in simp_all)
qed

theorem confirmWatched_again_reissues_witness:
  "calls (snd (interact ex_config (ex_env 601000000 None) (ex_input ''B200'' (Some Watched))
                 ex_certified ex_files)) =
     calls (snd (interact ex_config (ex_env 600000000 None) (ex_input ''A100'' (Some Watched))
                 ex_watching Map.empty)) \<and>
   phase_of (sess (snd (interact ex_config (ex_env 601000000 None)
                          (ex_input ''B200'' (Some Watched)) ex_certified ex_files))) = Certified \<and>
   certificate_path (sess (snd (interact ex_config (ex_env 601000000 None)
                          (ex_input ''B200'' (Some Watched)) ex_certified ex_files))) =
     certificate_path ex_certified \<and>
   calls (snd (interact ex_config (ex_env 601000000 None) (ex_input ''B200'' (Some Watched))
                 ex_certified_regno ex_files)) =
     [CreateCertificate (CStr ''Jane Doe'') (CStr ''B200'') ''CS22301 Microlearning''] \<and>
   certificate_path (sess (snd (interact ex_config (ex_env 601000000 None)
                          (ex_input ''B200'' (Some Watched)) ex_certified_regno ex_files))) =
     Some ''certificates/B200_CS22301_Microlearning.pdf''"
proof -
  let ?e = "ex_env 601000000 None"
  let ?i = "ex_input ''B200'' (Some Watched)"
  have p: "cert_path (CStr ''A100'') (SUBJECT ex_config) =
             ''certificates/A100_CS22301_Microlearning.pdf''"
    "cert_path (CStr ''B200'') (SUBJECT ex_config) =
             ''certificates/B200_CS22301_Microlearning.pdf''"
    by code_simp+
  have h: "df ex_certified = Some (Some ex_roster)" "timer_started ex_certified = Some True"
    "certificate_ready ex_certified = Some True" "student ex_certified = Some ex_student"
    "login_time ex_certified = Some 0" "video_done ex_certified = Some True"
    by (simp_all add: ex_certified_def)
  have hm: "handle_matches ex_config ex_certified"
    by (simp add: handle_matches_def ex_certified_def ex_student_def p)
  have g: "df ex_certified_regno = Some (Some ex_roster_regno)"
    "timer_started ex_certified_regno = Some True"
    "certificate_ready ex_certified_regno = Some True"
    "student ex_certified_regno = Some ex_student_regno"
    "login_time ex_certified_regno = Some 0" "video_done ex_certified_regno = Some True"
    by (simp_all add: ex_certified_regno_def)
  have gm: "handle_matches ex_config ex_certified_regno"
    by (simp add: handle_matches_def ex_certified_regno_def ex_student_regno_def)
  have c: "clicked ?i = Some Watched" "reg_no ?i = ''B200''"
    by (simp_all add: ex_input_def)
  have a: "VIDEO_DURATION ex_config * 1000000 \<le> now_timer ?e - 0"
    by (simp add: ex_env_def ex_config_def)
  have ok: "fpdf_raises ?e = None" by (simp add: ex_env_def)
  have k1: "map_of ex_student ''Reg_No'' = Some (CStr ''A100'')"
    "dict_get ex_student ''Name'' (CStr ''Student'') = CStr ''Jane Doe''"
    by (simp_all add: ex_student_def dict_get_def)
  have k2: "map_of ex_student_regno ''Reg_No'' = None"
    "dict_get ex_student_regno ''Name'' (CStr ''Student'') = CStr ''Jane Doe''"
    by (simp_all add: ex_student_regno_def dict_get_def)
  have first: "calls (snd (interact ex_config (ex_env 600000000 None)
                 (ex_input ''A100'' (Some Watched)) ex_watching Map.empty)) =
      [CreateCertificate (CStr ''Jane Doe'') (CStr ''A100'') ''CS22301 Microlearning'']"
    by code_simp
  note w1 = confirmWatched_again_reissues[OF h hm c(1) a, of ex_files]
  note w2 = confirmWatched_again_reissues[OF g gm c(1) a, of ex_files]
  from w1 k1(1) ok
  have r1: "calls (snd (interact ex_config ?e ?i ex_certified ex_files)) =
              [CreateCertificate (dict_get ex_student ''Name'' (CStr ''Student''))
                 (CStr ''A100'') (SUBJECT ex_config)]"
    "certificate_path (sess (snd (interact ex_config ?e ?i ex_certified ex_files))) =
       certificate_path ex_certified"
    "phase_of (sess (snd (interact ex_config ?e ?i ex_certified ex_files))) = Certified"
    by blast+
  from w2 k2(1) ok
  have r2: "calls (snd (interact ex_config ?e ?i ex_certified_regno ex_files)) =
              [CreateCertificate (dict_get ex_student_regno ''Name'' (CStr ''Student''))
                 (CStr (reg_no ?i)) (SUBJECT ex_config)]"
    "certificate_path (sess (snd (interact ex_config ?e ?i ex_certified_regno ex_files))) =
       Some (cert_path (CStr (reg_no ?i)) (SUBJECT ex_config))"
    by blast+
  show ?thesis
    using r1 r2 first by (simp add: k1 k2 c p) (simp add: ex_config_def)
qed


text \<open>
  The same for every eligible session without certificate: the run ends with the
  exception, the page stops at the button, no file is written, and the session keeps
  everything but \<open>video_done\<close>, which is now True. It is still Watching and eligible,
  and a later confirmation in which the issuer returns makes it Certified.
\<close>

lemma issuer_failure_uncaught:
  assumes "df s = Some (Some frame)"
    and "timer_started s = Some True" and "certificate_ready s = Some False"
    and "student s = Some stu" and "login_time s = Some t0"
    and "video_done s = Some vd"
    and "clicked inp = Some Watched"
    and "VIDEO_DURATION cfg * 1000000 \<le> now_timer e - t0"
    and "fpdf_raises e = Some x"
  shows "fst (interact cfg e inp s fs) = Uncaught x \<and>
         sess (snd (interact cfg e inp s fs)) = s\<lparr>video_done := Some True\<rparr> \<and>
         phase_of (sess (snd (interact cfg e inp s fs))) = Watching \<and>
         eligible cfg (now_timer e) (sess (snd (interact cfg e inp s fs))) \<and>
         files (snd (interact cfg e inp s fs)) = fs \<and>
         page (snd (interact cfg e inp s fs)) =
           [Title, RegNoInput, ButtonW Login, Subheader (SUBJECT cfg),
            Success VideoTimeCompleted,
            Video (py_replace ''watch?v='' ''embed/'' (VIDEO_URL cfg)), ButtonW Watched] \<and>
         (\<forall>e2 inp2. clicked inp2 = Some Watched \<and> fpdf_raises e2 = None \<and>
                     now_timer e \<le> now_timer e2 \<longrightarrow>
            fst (interact cfg e2 inp2 (sess (snd (interact cfg e inp s fs)))
                   (files (snd (interact cfg e inp s fs)))) = Normal \<and>
            phase_of (sess (snd (interact cfg e2 inp2 (sess (snd (interact cfg e inp s fs)))
                                   (files (snd (interact cfg e inp s fs)))))) = Certified)"
proof -
  note f = eligible_click_fail[OF assms(1,2,4,5,6,3,7,8,9), of fs]
  let ?s' = "s\<lparr>video_done := Some True\<rparr>"
  have retry: "fst (interact cfg e2 inp2 ?s' fs) = Normal \<and>
               phase_of (sess (snd (interact cfg e2 inp2 ?s' fs))) = Certified"
    if "clicked inp2 = Some Watched" "fpdf_raises e2 = None" "now_timer e \<le> now_timer e2"
    for e2 inp2
  proof -
    have h: "df ?s' = Some (Some frame)" "timer_started ?s' = Some True"
      "student ?s' = Some stu" "login_time ?s' = Some t0" "video_done ?s' = Some True"
      using assms by simp_all
    have late: "VIDEO_DURATION cfg * 1000000 \<le> now_timer e2 - t0"
      using assms(8) that(3) by linarith
    note k = eligible_click_ok[OF h that(1) late that(2), of fs]
    show ?thesis using assms(2) by (simp add: k phase_of_def)
  qed
  show ?thesis
    using assms(2,3,5,8) retry by (simp add: f phase_of_def eligible_def)
qed

text \<open>
  Claim C3, as worded: every registration number without a match gets the "not found"
  error. The empty input has no match in the roster, but the login handler is guarded by
  \<open>and reg_no\<close>: the click is ignored and no error is shown.
\<close>

theorem login_empty_counterexample:
  "find_student ex_roster [] = None \<and>
   page (snd (interact ex_config (ex_env 0 None) (ex_input [] (Some Login))
                ex_anonymous Map.empty)) =
     [Title, RegNoInput, ButtonW Login, Rule, AdminCheckbox]"
  by code_simp

text \<open>
  Claim C3, amended. A click on Login with a non-empty registration number that the
  lookup finds leaves the session in Watching, with the matched record stored and
  \<open>login_time\<close> set to the current time, and greets the student. With a non-empty
  number that the lookup does not find, an Anonymous session stays as it is and the
  "not found" error is shown. With an empty input the click is ignored: an Anonymous
  session stays as it is and no error is shown. (Within a run the clock does not go
  back between the login handler and the timer.)
\<close>

theorem login_transitions:
  assumes "df s = Some (Some frame)" and "clicked inp = Some Login"
    and "now_login e \<le> now_timer e"
  shows "(reg_no inp \<noteq> [] \<and> find_student frame (reg_no inp) = Some stu \<longrightarrow>
            fst (interact cfg e inp s fs) = Normal \<and>
            phase_of (sess (snd (interact cfg e inp s fs))) = Watching \<and>
            student (sess (snd (interact cfg e inp s fs))) = Some stu \<and>
            login_time (sess (snd (interact cfg e inp s fs))) = Some (now_login e) \<and>
            Success (Welcome (dict_get stu ''Name'' (CStr ''Student'')))
              \<in> set (page (snd (interact cfg e inp s fs)))) \<and>
         (reg_no inp \<noteq> [] \<and> find_student frame (reg_no inp) = None \<and>
          phase_of s = Anonymous \<longrightarrow>
            fst (interact cfg e inp s fs) = Normal \<and>
            sess (snd (interact cfg e inp s fs)) = s \<and>
            Error RegNoNotFound \<in> set (page (snd (interact cfg e inp s fs)))) \<and>
         (reg_no inp = [] \<and> phase_of s = Anonymous \<longrightarrow>
            fst (interact cfg e inp s fs) = Normal \<and>
            sess (snd (interact cfg e inp s fs)) = s \<and>
            (\<forall>m. Error m \<notin> set (page (snd (interact cfg e inp s fs)))))"
proof (intro conjI impI; (elim conjE)?)
  assume ne: "reg_no inp \<noteq> []" and found: "find_student frame (reg_no inp) = Some stu"
  note l = login_found[OF assms(1,2) ne found assms(3), of cfg fs]
  show "fst (interact cfg e inp s fs) = Normal" by (rule l(1))
  show "phase_of (sess (snd (interact cfg e inp s fs))) = Watching"
    by (simp add: l(2) phase_of_def)
  show "student (sess (snd (interact cfg e inp s fs))) = Some stu" by (simp add: l(2))
  show "login_time (sess (snd (interact cfg e inp s fs))) = Some (now_login e)"
    by (simp add: l(2))
  show "Success (Welcome (dict_get stu ''Name'' (CStr ''Student'')))
              \<in> set (page (snd (interact cfg e inp s fs)))" by (rule l(5))
next
  assume ne: "reg_no inp \<noteq> []" and nf: "find_student frame (reg_no inp) = None"
    and an: "phase_of s = Anonymous"
  from an have ts: "timer_started s \<noteq> Some True"
    by (auto simp: phase_of_def split: if_splits)
  note l = login_not_found[OF assms(1,2) ne nf ts, of cfg e fs]
  show "fst (interact cfg e inp s fs) = Normal" by (rule l(1))
  show "sess (snd (interact cfg e inp s fs)) = s" by (rule l(2))
  show "Error RegNoNotFound \<in> set (page (snd (interact cfg e inp s fs)))" by (rule l(5))
next
  assume em: "reg_no inp = []" and an: "phase_of s = Anonymous"
  from an have ts: "timer_started s \<noteq> Some True"
    by (auto simp: phase_of_def split: if_splits)
  note l = login_empty[OF assms(1,2) em ts, of cfg e fs]
  show "fst (interact cfg e inp s fs) = Normal" by (rule l(1))
  show "sess (snd (interact cfg e inp s fs)) = s" by (rule l(2))
  show "\<forall>m. Error m \<notin> set (page (snd (interact cfg e inp s fs)))" by (rule l(5))
qed

theorem login_transitions_witness:
  "phase_of ex_anonymous = Anonymous \<and>
   phase_of (sess (snd (interact ex_config (ex_env 0 None) (ex_input '' a100 '' (Some Login))
                          ex_anonymous Map.empty))) = Watching \<and>
   student (sess (snd (interact ex_config (ex_env 0 None) (ex_input '' a100 '' (Some Login))
                          ex_anonymous Map.empty))) = Some ex_student \<and>
   login_time (sess (snd (interact ex_config (ex_env 0 None) (ex_input '' a100 '' (Some Login))
                          ex_anonymous Map.empty))) = Some 0 \<and>
   sess (snd (interact ex_config (ex_env 0 None) (ex_input ''B200'' (Some Login))
                ex_anonymous Map.empty)) = ex_anonymous \<and>
   Error RegNoNotFound
     \<in> set (page (snd (interact ex_config (ex_env 0 None) (ex_input ''B200'' (Some Login))
                          ex_anonymous Map.empty))) \<and>
   sess (snd (interact ex_config (ex_env 0 None) (ex_input [] (Some Login))
                ex_anonymous Map.empty)) = ex_anonymous"
proof -
  have d: "df ex_anonymous = Some (Some ex_roster)" by (simp add: ex_anonymous_def)
  have an: "phase_of ex_anonymous = Anonymous" by (simp add: phase_of_def ex_anonymous_def)
  have t: "now_login (ex_env 0 None) \<le> now_timer (ex_env 0 None)" by (simp add: ex_env_def)
  have c: "clicked (ex_input q (Some Login)) = Some Login" for q by (simp add: ex_input_def)
  have q1: "reg_no (ex_input '' a100 '' (Some Login)) \<noteq> [] \<and>
            find_student ex_roster (reg_no (ex_input '' a100 '' (Some Login))) = Some ex_student"
    by code_simp
  have q2: "reg_no (ex_input ''B200'' (Some Login)) \<noteq> [] \<and>
            find_student ex_roster (reg_no (ex_input ''B200'' (Some Login))) = None"
    by code_simp
  have q3: "reg_no (ex_input [] (Some Login)) = []" by (simp add: ex_input_def)
  note w1 = login_transitions[OF d c t, of "'' a100 ''" ex_student ex_config Map.empty]
  note w2 = login_transitions[OF d c t, of "''B200''" ex_student ex_config Map.empty]
  note w3 = login_transitions[OF d c t, of "[]" ex_student ex_config Map.empty]
  from w1 q1 w2 q2 w3 q3 an show ?thesis
    by (simp add: ex_env_def)
qed

text \<open>
  Claim C4, as worded: a new login on a Certified session clears the certificate
  handle. After the login at 700 s on \<open>ex_certified\<close> the session is Watching, and the
  key \<open>certificate_path\<close> still holds the path of the old certificate.
\<close>

theorem relogin_keeps_path_counterexample:
  "phase_of ex_certified = Certified \<and>
   phase_of (sess (snd (interact ex_config (ex_env 700000000 None)
                          (ex_input ''A100'' (Some Login)) ex_certified ex_files))) = Watching \<and>
   certificate_path (sess (snd (interact ex_config (ex_env 700000000 None)
                          (ex_input ''A100'' (Some Login)) ex_certified ex_files))) =
     Some ''certificates/A100_CS22301_Microlearning.pdf''"
  by code_simp

text \<open>
  Claim C4, amended. A login on a Certified session with a non-empty registration number
  that the lookup finds gives a fresh Watching session for the matched student:
  \<open>login_time\<close> is the current time, \<open>video_done\<close> is reset (it is True again only if
  the configured duration is already over within that run), \<open>certificate_ready\<close> is
  False, and the page of that run shows no download link. The key \<open>certificate_path\<close>
  is not cleared, it keeps the old path: what is restored is that the certificate is
  exposed exactly in the phase Certified, through \<open>certificate_ready\<close>.
\<close>

theorem relogin_from_certified:
  assumes "df s = Some (Some frame)" and "phase_of s = Certified"
    and "clicked inp = Some Login" and "reg_no inp \<noteq> []"
    and "find_student frame (reg_no inp) = Some stu"
    and "now_login e \<le> now_timer e"
  shows "fst (interact cfg e inp s fs) = Normal \<and>
         phase_of (sess (snd (interact cfg e inp s fs))) = Watching \<and>
         student (sess (snd (interact cfg e inp s fs))) = Some stu \<and>
         login_time (sess (snd (interact cfg e inp s fs))) = Some (now_login e) \<and>
         video_done (sess (snd (interact cfg e inp s fs))) =
           Some (VIDEO_DURATION cfg * 1000000 \<le> now_timer e - now_login e) \<and>
         certificate_ready (sess (snd (interact cfg e inp s fs))) = Some False \<and>
         certificate_path (sess (snd (interact cfg e inp s fs))) = certificate_path s \<and>
         (\<forall>n d. DownloadLink n d \<notin> set (page (snd (interact cfg e inp s fs))))"
proof -
  note l = login_found[OF assms(1,3,4,5,6), of cfg fs]
  show ?thesis
    using l(1) l(6) by (simp add: l(2) phase_of_def)
qed

theorem relogin_from_certified_witness:
  "phase_of (sess (snd (interact ex_config (ex_env 700000000 None)
                          (ex_input ''A100'' (Some Login)) ex_certified ex_files))) = Watching \<and>
   login_time (sess (snd (interact ex_config (ex_env 700000000 None)
                          (ex_input ''A100'' (Some Login)) ex_certified ex_files))) =
     Some 700000000 \<and>
   certificate_ready (sess (snd (interact ex_config (ex_env 700000000 None)
                          (ex_input ''A100'' (Some Login)) ex_certified ex_files))) = Some False \<and>
   certificate_path (sess (snd (interact ex_config (ex_env 700000000 None)
                          (ex_input ''A100'' (Some Login)) ex_certified ex_files))) =
     certificate_path ex_certified"
proof -
  have d: "df ex_certified = Some (Some ex_roster)" by (simp add: ex_certified_def)
  have ce: "phase_of ex_certified = Certified" by (simp add: phase_of_def ex_certified_def)
  have c: "clicked (ex_input ''A100'' (Some Login)) = Some Login" by (simp add: ex_input_def)
  have ne: "reg_no (ex_input ''A100'' (Some Login)) \<noteq> []" by (simp add: ex_input_def)
  have f: "find_student ex_roster (reg_no (ex_input ''A100'' (Some Login))) = Some ex_student"
    by code_simp
  have t: "now_login (ex_env 700000000 None) \<le> now_timer (ex_env 700000000 None)"
    by (simp add: ex_env_def)
  from relogin_from_certified[OF d ce c ne f t, of ex_config ex_files] show ?thesis
    by (simp add: ex_env_def)
qed

lemma serve_sessions:
  "sessions (serve cfg e inp sid srv) j =
     (if j = sid then sess (snd (interact cfg e inp (sessions srv sid) (disk srv)))
      else sessions srv j)"
  by (simp add: serve_def split: prod.splits)

text \<open>
  Claim C5, as worded: after a reload every subsequent lookup observes the new roster
  only. The roster is kept in the session of the client who reloads. With two clients
  on the first roster, the reload by client 0 gives client 0 the new roster, which has no
  A100, and the login of client 1 with A100 afterwards still finds Jane Doe in the old
  one.
\<close>

theorem adminReload_other_session_counterexample:
  "df (sessions (serve ex_config (ex_reload_env True (Inr ex_roster_new))
                   (ex_admin ''s3cret'' (Some Reload)) 0 ex_server) 0) =
     Some (Some ex_roster_new) \<and>
   find_student ex_roster_new ''A100'' = None \<and>
   student (sessions (serve ex_config (ex_env 0 None) (ex_input ''A100'' (Some Login)) 1
                        (serve ex_config (ex_reload_env True (Inr ex_roster_new))
                           (ex_admin ''s3cret'' (Some Reload)) 0 ex_server)) 1) =
     Some ex_student"
  by code_simp

text \<open>
  Claim C5, amended. On a client whose session has a loaded roster: unless the admin box
  is ticked and the password typed equals \<open>ADMIN_PASSWORD\<close> exactly, a run leaves the
  roster of every session as it is, does not call the provider, and shows neither the
  greeting nor the reload button. With the box ticked, the exact password, a click on
  the reload button and a provider that returns a non-empty roster, a run that reaches
  the admin block replaces the roster of that client's session, and of that session
  only: every later login of that session looks the number up in the new roster alone,
  the sessions of the other clients are untouched, and their later logins still look
  the number up in the roster they hold.
\<close>

theorem adminReload_per_session:
  assumes "df (sessions srv sid) = Some (Some frame)"
  shows "(\<not> (admin_login inp \<and> pw inp = ADMIN_PASSWORD cfg) \<longrightarrow>
            (\<forall>j. df (sessions (serve cfg e inp sid srv) j) = df (sessions srv j)) \<and>
            LoadStudentFile
              \<notin> set (calls (snd (interact cfg e inp (sessions srv sid) (disk srv)))) \<and>
            ButtonW Reload
              \<notin> set (page (snd (interact cfg e inp (sessions srv sid) (disk srv)))) \<and>
            Success AdminAccessGranted
              \<notin> set (page (snd (interact cfg e inp (sessions srv sid) (disk srv))))) \<and>
         (admin_login inp \<and> pw inp = ADMIN_PASSWORD cfg \<and> clicked inp = Some Reload \<and>
          fst (interact cfg e inp (sessions srv sid) (disk srv)) = Normal \<and>
          file_exists e \<and> decrypt_read e = Inr frame' \<and> \<not> df_empty frame' \<longrightarrow>
            df (sessions (serve cfg e inp sid srv) sid) = Some (Some frame') \<and>
            (\<forall>j. j \<noteq> sid \<longrightarrow> sessions (serve cfg e inp sid srv) j = sessions srv j) \<and>
            (\<forall>e2 inp2. clicked inp2 = Some Login \<and> reg_no inp2 \<noteq> [] \<longrightarrow>
               student (sessions (serve cfg e2 inp2 sid (serve cfg e inp sid srv)) sid) =
                 (case find_student frame' (reg_no inp2) of
                    None \<Rightarrow> student (sessions (serve cfg e inp sid srv) sid)
                  | Some stu \<Rightarrow> Some stu)) \<and>
            (\<forall>j old e2 inp2. j \<noteq> sid \<and> df (sessions srv j) = Some (Some old) \<and>
                  clicked inp2 = Some Login \<and> reg_no inp2 \<noteq> [] \<longrightarrow>
               student (sessions (serve cfg e2 inp2 j (serve cfg e inp sid srv)) j) =
                 (case find_student old (reg_no inp2) of
                    None \<Rightarrow> student (sessions srv j)
                  | Some stu \<Rightarrow> Some stu)))"
proof (intro conjI impI; (elim conjE)?)
  let ?r = "snd (interact cfg e inp (sessions srv sid) (disk srv))"
  assume na: "\<not> (admin_login inp \<and> pw inp = ADMIN_PASSWORD cfg)"
  note k = no_admin[OF assms na, where fs = "disk srv" and e = e, unfolded keeps_roster_def]
  show "\<forall>j. df (sessions (serve cfg e inp sid srv) j) = df (sessions srv j)"
    using k by (simp add: serve_sessions start_def)
  show "LoadStudentFile \<notin> set (calls ?r)" using k by (auto simp: start_def)
  show "ButtonW Reload \<notin> set (page ?r)" using k by (auto simp: start_def)
  show "Success AdminAccessGranted \<notin> set (page ?r)" using k by (auto simp: start_def)
next
  let ?r = "snd (interact cfg e inp (sessions srv sid) (disk srv))"
  assume a: "admin_login inp" "pw inp = ADMIN_PASSWORD cfg" "clicked inp = Some Reload"
    "fst (interact cfg e inp (sessions srv sid) (disk srv)) = Normal"
    and l: "file_exists e" "decrypt_read e = Inr frame'" "\<not> df_empty frame'"
  have d: "df (sess ?r) = Some (Some frame')"
    using reload_run(1)[OF assms a] l by simp
  show "df (sessions (serve cfg e inp sid srv) sid) = Some (Some frame')"
    using d by (simp add: serve_sessions)
  show "\<forall>j. j \<noteq> sid \<longrightarrow> sessions (serve cfg e inp sid srv) j = sessions srv j"
    by (simp add: serve_sessions)
  show "\<forall>e2 inp2. clicked inp2 = Some Login \<and> reg_no inp2 \<noteq> [] \<longrightarrow>
               student (sessions (serve cfg e2 inp2 sid (serve cfg e inp sid srv)) sid) =
                 (case find_student frame' (reg_no inp2) of
                    None \<Rightarrow> student (sessions (serve cfg e inp sid srv) sid)
                  | Some stu \<Rightarrow> Some stu)"
    by (simp add: serve_sessions student_after_run[OF d] split: option.splits)
  show "\<forall>j old e2 inp2. j \<noteq> sid \<and> df (sessions srv j) = Some (Some old) \<and>
                  clicked inp2 = Some Login \<and> reg_no inp2 \<noteq> [] \<longrightarrow>
               student (sessions (serve cfg e2 inp2 j (serve cfg e inp sid srv)) j) =
                 (case find_student old (reg_no inp2) of
                    None \<Rightarrow> student (sessions srv j)
                  | Some stu \<Rightarrow> Some stu)"
  proof (intro allI impI; elim conjE)
    fix j old e2 and inp2 :: input
    assume j: "j \<noteq> sid" and o: "df (sessions srv j) = Some (Some old)"
      and c: "clicked inp2 = Some Login" "reg_no inp2 \<noteq> []"
    show "student (sessions (serve cfg e2 inp2 j (serve cfg e inp sid srv)) j) =
                 (case find_student old (reg_no inp2) of
                    None \<Rightarrow> student (sessions srv j)
                  | Some stu \<Rightarrow> Some stu)"
      using j c by (simp add: serve_sessions student_after_run[OF o] split: option.splits)
  qed
qed

theorem adminReload_per_session_witness:
  "df (sessions (serve ex_config (ex_reload_env True (Inr ex_roster_new))
                   (ex_admin ''S3cret'' (Some Reload)) 0 ex_server) 0) =
     Some (Some ex_roster) \<and>
   df (sessions (serve ex_config (ex_reload_env True (Inr ex_roster_new))
                   (ex_admin ''s3cret'' (Some Reload)) 0 ex_server) 0) =
     Some (Some ex_roster_new) \<and>
   sessions (serve ex_config (ex_reload_env True (Inr ex_roster_new))
               (ex_admin ''s3cret'' (Some Reload)) 0 ex_server) 1 = ex_anonymous \<and>
   student (sessions (serve ex_config (ex_env 0 None) (ex_input ''B200'' (Some Login)) 0
                        (serve ex_config (ex_reload_env True (Inr ex_roster_new))
                           (ex_admin ''s3cret'' (Some Reload)) 0 ex_server)) 0) =
     Some [(''Name'', CStr ''John Roe''), (''Reg_No'', CStr ''B200'')] \<and>
   student (sessions (serve ex_config (ex_env 0 None) (ex_input ''A100'' (Some Login)) 0
                        (serve ex_config (ex_reload_env True (Inr ex_roster_new))
                           (ex_admin ''s3cret'' (Some Reload)) 0 ex_server)) 0) = None \<and>
   student (sessions (serve ex_config (ex_env 0 None) (ex_input ''A100'' (Some Login)) 1
                        (serve ex_config (ex_reload_env True (Inr ex_roster_new))
                           (ex_admin ''s3cret'' (Some Reload)) 0 ex_server)) 1) =
     Some ex_student"
proof -
  let ?e = "ex_reload_env True (Inr ex_roster_new)"
  let ?bad = "ex_admin ''S3cret'' (Some Reload)"
  let ?good = "ex_admin ''s3cret'' (Some Reload)"
  let ?srv = "serve ex_config ?e ?good 0 ex_server"
  have s: "sessions ex_server j = ex_anonymous" "disk ex_server = Map.empty" for j
    by (simp_all add: ex_server_def)
  have d: "df (sessions ex_server j) = Some (Some ex_roster)" for j
    by (simp add: s ex_anonymous_def)
  have st: "student (sessions ex_server j) = None" for j
    by (simp add: s ex_anonymous_def)
  have wrong: "\<not> (admin_login ?bad \<and> pw ?bad = ADMIN_PASSWORD ex_config)"
    by (simp add: ex_admin_def ex_config_def)
  have n: "fst (interact ex_config ?e ?good ex_anonymous Map.empty) = Normal" by code_simp
  have right: "admin_login ?good \<and> pw ?good = ADMIN_PASSWORD ex_config \<and>
               clicked ?good = Some Reload \<and>
               fst (interact ex_config ?e ?good (sessions ex_server 0) (disk ex_server)) = Normal \<and>
               file_exists ?e \<and> decrypt_read ?e = Inr ex_roster_new \<and>
               \<not> df_empty ex_roster_new"
    using n
    by (simp add: s ex_admin_def ex_config_def ex_reload_env_def df_empty_def ex_roster_new_def)
  have q: "clicked (ex_input q (Some Login)) = Some Login" for q by (simp add: ex_input_def)
  have ne: "reg_no (ex_input ''A100'' (Some Login)) \<noteq> []"
    "reg_no (ex_input ''B200'' (Some Login)) \<noteq> []" by (simp_all add: ex_input_def)
  have f: "find_student ex_roster_new (reg_no (ex_input ''A100'' (Some Login))) = None"
    "find_student ex_roster_new (reg_no (ex_input ''B200'' (Some Login))) =
       Some [(''Name'', CStr ''John Roe''), (''Reg_No'', CStr ''B200'')]"
    "find_student ex_roster (reg_no (ex_input ''A100'' (Some Login))) = Some ex_student"
    by code_simp+
  have st0: "student (sessions ?srv 0) = None" by code_simp
  note w1 = adminReload_per_session[OF d[of 0], where inp = ?bad and cfg = ex_config
      and e = ?e and frame' = ex_roster_new, THEN conjunct1, rule_format, OF wrong]
  note w2 = adminReload_per_session[OF d[of 0], where inp = ?good and cfg = ex_config
      and e = ?e and frame' = ex_roster_new, THEN conjunct2, rule_format, OF right]
  from w1 have a1: "df (sessions (serve ex_config ?e ?bad 0 ex_server) 0) = Some (Some ex_roster)"
    using d by simp
  from w2 have a2: "df (sessions ?srv 0) = Some (Some ex_roster_new)" by blast
  from w2 have "sessions ?srv 1 = sessions ex_server 1" by simp
  then have a3: "sessions ?srv 1 = ex_anonymous" by (simp add: s)
  from w2 have own: "student (sessions (serve ex_config e2 inp2 0 ?srv) 0) =
      (case find_student ex_roster_new (reg_no inp2) of
         None \<Rightarrow> student (sessions ?srv 0) | Some stu \<Rightarrow> Some stu)"
    if "clicked inp2 = Some Login" "reg_no inp2 \<noteq> []" for e2 inp2
    using that by blast
  from w2 have other: "student (sessions (serve ex_config e2 inp2 j ?srv) j) =
      (case find_student old (reg_no inp2) of
         None \<Rightarrow> student (sessions ex_server j) | Some stu \<Rightarrow> Some stu)"
    if "j \<noteq> 0" "df (sessions ex_server j) = Some (Some old)"
      "clicked inp2 = Some Login" "reg_no inp2 \<noteq> []" for j old e2 inp2
    using that by blast
  have o1: "(1::nat) \<noteq> 0" by simp
  show ?thesis
    using a1 a2 a3 own[OF q ne(2)] own[OF q ne(1)] other[OF o1 d q ne(1)]
    by (simp add: f st0)
qed



section \<open>The sessions that runs can reach\<close>

text \<open>
  With a clock that does not go back, every run keeps \<open>coherent\<close>, and the empty session
  a client starts with is coherent. So the assumptions made above on a Watching or a
  Certified session hold of every session that a sequence of runs can produce.
\<close>

lemma coherent_fresh: "coherent cfg t fresh_session"
  by (simp add: coherent_def fresh_session_def)

lemma coherent_later: "coherent cfg t s \<Longrightarrow> t \<le> t' \<Longrightarrow> coherent cfg t' s"
  by (auto simp: coherent_def eligible_def split: option.splits)

lemma coherent_df: "coherent cfg t (s\<lparr>df := x\<rparr>) = coherent cfg t s"
  by (simp add: coherent_def eligible_def)

lemma andthen_holds:
  assumes "P (snd x)" "\<And>r1. P r1 \<Longrightarrow> P (snd (f r1))"
  shows "P (snd (andthen x f))"
  using andthen_snd[of x f] assms by metis

lemma coherent_login:
  assumes "coherent cfg t (sess r)" "t \<le> now_login e"
  shows "coherent cfg (now_login e) (sess (snd (login_section e inp frame r)))"
  using assms coherent_later[OF assms]
  by (auto simp: login_section_def emit_def Let_def coherent_def eligible_def
      split: option.splits)

lemma coherent_timer:
  assumes "coherent cfg t (sess r)" "t \<le> now_timer e" "login_time (sess r) = Some t0"
    "timer_started (sess r) = Some True"
  shows "coherent cfg (now_timer e) (sess (snd (timer_gate cfg e t0 r)))"
  using assms coherent_later[OF assms(1,2)]
  by (auto simp: timer_gate_def emit_def Let_def coherent_def eligible_def remaining_us_def)

lemma coherent_watched:
  assumes "coherent cfg t (sess r)"
  shows "coherent cfg t (sess (snd (watched_button cfg e inp stu reg rem r)))"
  using assms
  by (auto simp: watched_button_def create_certificate_def emit_def Let_def coherent_def
      eligible_def split: option.splits)

lemma coherent_download:
  "sess (snd (download_section r)) = sess r"
  by (simp add: download_section_def get_pdf_download_link_def emit_def split: option.splits)

lemma coherent_admin:
  assumes "coherent cfg t (sess r)"
  shows "coherent cfg t (sess (snd (admin_section cfg e inp r)))"
  using assms
  by (auto simp: admin_section_def load_student_file_def emit_def Let_def coherent_df
      split: sum.splits)

lemma coherent_video:
  assumes "coherent cfg t (sess r)" "t \<le> now_timer e"
  shows "coherent cfg (now_timer e) (sess (snd (video_section cfg e inp r)))"
proof (cases "timer_started (sess r) = Some True")
  case False
  then show ?thesis using coherent_later[OF assms] by (simp add: video_section_def)
next
  case True
  with assms(1) obtain stu t0 where st: "student (sess r) = Some stu"
    and t0: "login_time (sess r) = Some t0"
    by (auto simp: coherent_def)
  let ?P = "\<lambda>r::run. coherent cfg (now_timer e) (sess r)"
  let ?r1 = "emit (Subheader (SUBJECT cfg)) r"
  have s1: "sess ?r1 = sess r" by (simp add: emit_def)
  have a: "?P (snd (timer_gate cfg e t0 ?r1))"
    using coherent_timer[of cfg t ?r1 e t0] assms t0 True by (simp add: s1)
  have b: "?P (snd (andthen (timer_gate cfg e t0 ?r1)
                 (\<lambda>r2. watched_button cfg e inp stu (dict_get stu ''Reg_No'' (CStr (reg_no inp)))
                     (remaining_us cfg e t0)
                     (emit (Video (py_replace ''watch?v='' ''embed/'' (VIDEO_URL cfg))) r2))))"
  proof (rule andthen_holds[where P = ?P, OF a])
    fix r1 assume "?P r1"
    then have "coherent cfg (now_timer e)
       (sess (emit (Video (py_replace ''watch?v='' ''embed/'' (VIDEO_URL cfg))) r1))"
      by (simp add: emit_def)
    then show "?P (snd (watched_button cfg e inp stu (dict_get stu ''Reg_No'' (CStr (reg_no inp)))
                     (remaining_us cfg e t0)
                     (emit (Video (py_replace ''watch?v='' ''embed/'' (VIDEO_URL cfg))) r1)))"
      by (rule coherent_watched)
  qed
  have "?P (snd (andthen (andthen (timer_gate cfg e t0 ?r1)
                 (\<lambda>r2. watched_button cfg e inp stu (dict_get stu ''Reg_No'' (CStr (reg_no inp)))
                     (remaining_us cfg e t0)
                     (emit (Video (py_replace ''watch?v='' ''embed/'' (VIDEO_URL cfg))) r2)))
               download_section))"
    by (rule andthen_holds[where P = ?P, OF b]) (simp add: coherent_download)
  with True st t0 show ?thesis
    by (simp add: video_section_def Let_def s1)
qed

lemma coherent_handlers:
  assumes "coherent cfg t (sess r)" "t \<le> now_login e" "now_login e \<le> now_timer e"
  shows "coherent cfg (now_timer e)
           (sess (snd (andthen (andthen (login_section e inp frame r) (video_section cfg e inp))
                         (admin_section cfg e inp))))"
proof -
  let ?P = "\<lambda>r::run. coherent cfg (now_timer e) (sess r)"
  let ?Q = "\<lambda>r::run. coherent cfg (now_login e) (sess r)"
  have l: "?Q (snd (login_section e inp frame r))"
    by (rule coherent_login[OF assms(1,2)])
  have lv: "?P (snd (andthen (login_section e inp frame r) (video_section cfg e inp)))"
  proof -
    from andthen_snd[of "login_section e inp frame r" "video_section cfg e inp"]
    show ?thesis
    proof
      assume "snd (andthen (login_section e inp frame r) (video_section cfg e inp)) =
              snd (login_section e inp frame r)"
      with l assms(3) show ?thesis by (simp add: coherent_later)
    next
      assume "snd (andthen (login_section e inp frame r) (video_section cfg e inp)) =
              snd (video_section cfg e inp (snd (login_section e inp frame r)))"
      with coherent_video[OF l assms(3)] show ?thesis by simp
    qed
  qed
  show ?thesis
    by (rule andthen_holds[where P = ?P, OF lv]) (rule coherent_admin)
qed

lemma coherent_interact:
  assumes "coherent cfg t s" "t \<le> now_login e" "now_login e \<le> now_timer e"
  shows "coherent cfg (now_timer e) (sess (snd (interact cfg e inp s fs)))"
proof -
  have tt: "t \<le> now_timer e" using assms(2,3) by simp
  define r2 where "r2 = (case df (sess (emit Title (start s fs))) of
      None \<Rightarrow> (case load_student_file cfg e (emit Title (start s fs)) of
                  (res, r') \<Rightarrow> r'\<lparr>sess := (sess r')\<lparr>df := Some res\<rparr>\<rparr>)
    | Some _ \<Rightarrow> emit Title (start s fs))"
  have c2: "coherent cfg t (sess r2)"
    using assms(1)
    by (auto simp: r2_def load_student_file_def emit_def start_def Let_def coherent_df
        split: option.splits sum.splits)
  have run: "interact cfg e inp s fs =
     (case df (sess r2) of
        Some (Some frame) \<Rightarrow>
          andthen (andthen (login_section e inp frame r2) (video_section cfg e inp))
            (admin_section cfg e inp)
      | _ \<Rightarrow> (Stopped, r2))"
    by (simp only: interact_def script_def r2_def Let_def option.case)
  show ?thesis
  proof (cases "df (sess r2)")
    case None
    with run c2 tt show ?thesis by (simp add: coherent_later)
  next
    case (Some x)
    show ?thesis
    proof (cases x)
      case None
      with Some run c2 tt show ?thesis by (simp add: coherent_later)
    next
      case (Some frame)
      with \<open>df (sess r2) = Some x\<close> run coherent_handlers[OF c2 assms(2,3)]
      show ?thesis by simp
    qed
  qed
qed

lemma coherent_watching:
  assumes "coherent cfg t s" "phase_of s = Watching" "t \<le> now"
  shows "\<exists>stu t0 vd. timer_started s = Some True \<and> certificate_ready s = Some False \<and>
           student s = Some stu \<and> login_time s = Some t0 \<and> video_done s = Some vd \<and>
           (vd \<longrightarrow> VIDEO_DURATION cfg * 1000000 \<le> now - t0) \<and> t0 \<le> now"
proof -
  from assms(2) have ts: "timer_started s = Some True" and nc: "certificate_ready s \<noteq> Some True"
    by (auto simp: phase_of_def split: if_splits)
  from assms(1) ts obtain stu t0 vd cr where f: "student s = Some stu" "login_time s = Some t0"
    "video_done s = Some vd" "certificate_ready s = Some cr"
    by (auto simp: coherent_def)
  from f(4) nc have cr: "certificate_ready s = Some False" by auto
  from assms(1) f(2) have le: "t0 \<le> t" by (simp add: coherent_def)
  have "vd \<longrightarrow> VIDEO_DURATION cfg * 1000000 \<le> now - t0"
    using assms(1,3) f(2,3) by (auto simp: coherent_def eligible_def)
  with ts cr f le assms(3) show ?thesis by auto
qed

lemma coherent_certified:
  assumes "coherent cfg t s" "phase_of s = Certified" "t \<le> now"
  shows "\<exists>stu t0 p. timer_started s = Some True \<and> certificate_ready s = Some True \<and>
           student s = Some stu \<and> login_time s = Some t0 \<and> video_done s = Some True \<and>
           certificate_path s = Some p \<and> VIDEO_DURATION cfg * 1000000 \<le> now - t0"
proof -
  from assms(2) have ts: "timer_started s = Some True" and c: "certificate_ready s = Some True"
    by (auto simp: phase_of_def split: if_splits)
  from assms(1) ts c obtain stu t0 p where f: "student s = Some stu" "login_time s = Some t0"
    "video_done s = Some True" "certificate_path s = Some p"
    by (auto simp: coherent_def)
  have "VIDEO_DURATION cfg * 1000000 \<le> now - t0"
    using assms(1,3) f(2,3) by (auto simp: coherent_def eligible_def)
  with ts c f show ?thesis by auto
qed

lemma ex_sessions_reached:
  "sess (snd (interact ex_config (ex_env 0 None) (ex_input [] None) fresh_session Map.empty))
     = ex_anonymous"
  "sess (snd (interact ex_config (ex_env 0 None) (ex_input ''A100'' (Some Login))
                ex_anonymous Map.empty)) = ex_watching"
  "sess (snd (interact ex_config (ex_env 600000000 None) (ex_input ''A100'' (Some Watched))
                ex_watching Map.empty)) = ex_certified"
  "files (snd (interact ex_config (ex_env 600000000 None) (ex_input ''A100'' (Some Watched))
                ex_watching Map.empty)) ''certificates/A100_CS22301_Microlearning.pdf''
     = ex_files ''certificates/A100_CS22301_Microlearning.pdf''"
  by code_simp+

text \<open>
  Every run keeps \<open>handle_matches\<close> too (with the subject fixed), and the empty session
  has it: on a Certified session that runs can produce, the stored path is the one of
  the stored record.
\<close>

lemma handle_matches_video_done [simp]:
  "handle_matches cfg (s\<lparr>video_done := x\<rparr>) = handle_matches cfg s"
  by (simp add: handle_matches_def)

lemma handle_matches_df [simp]:
  "handle_matches cfg (s\<lparr>df := x\<rparr>) = handle_matches cfg s"
  by (simp add: handle_matches_def)

lemma handle_matches_fresh: "handle_matches cfg fresh_session"
  by (simp add: handle_matches_def fresh_session_def)

lemma handle_matches_login:
  "handle_matches cfg (sess r) \<Longrightarrow>
     handle_matches cfg (sess (snd (login_section e inp frame r)))"
  by (auto simp: login_section_def emit_def Let_def handle_matches_def split: option.splits)

lemma handle_matches_timer:
  "handle_matches cfg (sess r) \<Longrightarrow>
     handle_matches cfg (sess (snd (timer_gate cfg e t0 r)))"
  by (auto simp: timer_gate_def emit_def Let_def)

lemma handle_matches_watched:
  assumes "handle_matches cfg (sess r)" "student (sess r) = Some stu"
  shows "handle_matches cfg
           (sess (snd (watched_button cfg e inp stu (dict_get stu ''Reg_No'' d) rem r)))"
  using assms
  by (auto simp: watched_button_def create_certificate_def emit_def Let_def
      handle_matches_def dict_get_def split: option.splits)

lemma handle_matches_admin:
  "handle_matches cfg (sess r) \<Longrightarrow>
     handle_matches cfg (sess (snd (admin_section cfg e inp r)))"
  by (auto simp: admin_section_def load_student_file_def emit_def Let_def split: sum.splits)

lemma handle_matches_video:
  assumes "handle_matches cfg (sess r)"
  shows "handle_matches cfg (sess (snd (video_section cfg e inp r)))"
proof (cases "timer_started (sess r) = Some True")
  case False
  then show ?thesis using assms by (simp add: video_section_def)
next
  case True
  show ?thesis
  proof (cases "student (sess r)")
    case None
    with True assms show ?thesis by (simp add: video_section_def)
  next
    case (Some stu)
    let ?r1 = "emit (Subheader (SUBJECT cfg)) r"
    have s1: "sess ?r1 = sess r" by (simp add: emit_def)
    show ?thesis
    proof (cases "login_time (sess r)")
      case None
      with True Some assms show ?thesis
        by (simp add: video_section_def emit_def Let_def)
    next
      case t0: (Some t0)
      let ?P = "\<lambda>r::run. handle_matches cfg (sess r) \<and> student (sess r) = Some stu"
      have a: "?P (snd (timer_gate cfg e t0 ?r1))"
        using handle_matches_timer[of cfg ?r1 e t0] assms Some
        by (simp add: s1 student_timer)
      have b: "?P (snd (andthen (timer_gate cfg e t0 ?r1)
                 (\<lambda>r2. watched_button cfg e inp stu (dict_get stu ''Reg_No'' (CStr (reg_no inp)))
                     (remaining_us cfg e t0)
                     (emit (Video (py_replace ''watch?v='' ''embed/'' (VIDEO_URL cfg))) r2))))"
      proof (rule andthen_holds[where P = ?P, OF a])
        fix r1 :: run
        let ?r = "emit (Video (py_replace ''watch?v='' ''embed/'' (VIDEO_URL cfg))) r1"
        assume "?P r1"
        then have h: "handle_matches cfg (sess ?r)" "student (sess ?r) = Some stu"
          by (simp_all add: emit_def)
        show "?P (snd (watched_button cfg e inp stu (dict_get stu ''Reg_No'' (CStr (reg_no inp)))
                     (remaining_us cfg e t0) ?r))"
          using handle_matches_watched[OF h] h(2) by (simp add: student_watched)
      qed
      have "?P (snd (andthen (andthen (timer_gate cfg e t0 ?r1)
                 (\<lambda>r2. watched_button cfg e inp stu (dict_get stu ''Reg_No'' (CStr (reg_no inp)))
                     (remaining_us cfg e t0)
                     (emit (Video (py_replace ''watch?v='' ''embed/'' (VIDEO_URL cfg))) r2)))
               download_section))"
        by (rule andthen_holds[where P = ?P, OF b]) (simp add: coherent_download)
      with True Some t0 show ?thesis
        by (simp add: video_section_def Let_def s1)
    qed
  qed
qed

lemma handle_matches_interact:
  assumes "handle_matches cfg s"
  shows "handle_matches cfg (sess (snd (interact cfg e inp s fs)))"
proof -
  define r2 where "r2 = (case df (sess (emit Title (start s fs))) of
      None \<Rightarrow> (case load_student_file cfg e (emit Title (start s fs)) of
                  (res, r') \<Rightarrow> r'\<lparr>sess := (sess r')\<lparr>df := Some res\<rparr>\<rparr>)
    | Some _ \<Rightarrow> emit Title (start s fs))"
  let ?P = "\<lambda>r::run. handle_matches cfg (sess r)"
  have c2: "?P r2"
    using assms
    by (auto simp: r2_def load_student_file_def emit_def start_def Let_def
        split: option.splits sum.splits)
  have run: "interact cfg e inp s fs =
     (case df (sess r2) of
        Some (Some frame) \<Rightarrow>
          andthen (andthen (login_section e inp frame r2) (video_section cfg e inp))
            (admin_section cfg e inp)
      | _ \<Rightarrow> (Stopped, r2))"
    by (simp only: interact_def script_def r2_def Let_def option.case)
  have h: "?P (snd (andthen (andthen (login_section e inp frame r2) (video_section cfg e inp))
            (admin_section cfg e inp)))" for frame
    by (intro andthen_holds[where P = ?P] handle_matches_login handle_matches_video
        handle_matches_admin c2)
  show ?thesis
    using c2 h by (simp add: run split: option.splits)
qed

end
